theory Spec2Isabelle
  imports
    Main
    "HOL-Library.Multiset"
    "HOL-Library.Char_ord"
    "HOL-Library.List_Lexorder"
    "HOL-Library.Product_Lexorder"
    "HOL-Library.Option_ord"
begin

section \<open>pyBLS.BlsData: a shallow embedding\<close>

text \<open>
  The class \<^verbatim>\<open>BlsData\<close> of \<^verbatim>\<open>src/pyBLS/BlsData.py\<close> fetches time series, merges them
  into one pandas table, derives a date index and resolves location names. Python
  exceptions are values of \<open>py_error\<close>; every function that can raise returns
  \<open>py_error + 'a\<close> with \<open>Inl\<close> for the exception. Strings are byte strings: series
  identifiers, years and period codes of the BLS are ASCII.
\<close>

datatype py_error =
    KeyError | IndexError | ValueError | TypeError | AttributeError
  | UnboundLocalError | FileNotFoundError | RequestError

subsection \<open>The regular expressions of \<^verbatim>\<open>get_location\<close>\<close>

definition is_digit :: "char \<Rightarrow> bool" where
  "is_digit c = (c \<in> set ''0123456789'')"

definition is_upper :: "char \<Rightarrow> bool" where
  "is_upper c = (c \<in> set ''ABCDEFGHIJKLMNOPQRSTUVWXYZ'')"

text \<open>
  \<^verbatim>\<open>re.match('[EN|LA]', series[0:2])\<close>: the pattern is a character class, so it matches
  exactly when the slice is non-empty and its first character is one of
  \<^verbatim>\<open>E N | L A\<close>.
\<close>

definition match_EN_LA :: "string \<Rightarrow> bool" where
  "match_EN_LA series =
     (case take 2 series of [] \<Rightarrow> False | c # _ \<Rightarrow> c \<in> set ''EN|LA'')"

text \<open>\<^verbatim>\<open>re.match('OE', series[0:2])\<close>: the two-character slice starts with \<^verbatim>\<open>OE\<close>.\<close>

definition match_OE :: "string \<Rightarrow> bool" where
  "match_OE series = (take 2 (take 2 series) = ''OE'')"

text \<open>
  \<^verbatim>\<open>re.search('^[A-Z]{3}([\d|U][\d|S]\d\d\d)', series)\<close>: anchored at the start, three
  capitals, then the five characters of group 1. The result is \<open>None\<close> when Python's
  \<^verbatim>\<open>re.search\<close> returns \<^verbatim>\<open>None\<close>, else the text of group 1.
\<close>

definition search_EN :: "string \<Rightarrow> string option" where
  "search_EN series =
     (let pre = take 3 series; g = take 5 (drop 3 series)
      in if length pre = 3 \<and> list_all is_upper pre \<and> length g = 5
            \<and> (is_digit (g ! 0) \<or> g ! 0 \<in> set ''|U'')
            \<and> (is_digit (g ! 1) \<or> g ! 1 \<in> set ''|S'')
            \<and> list_all is_digit (drop 2 g)
         then Some g else None)"

text \<open>\<^verbatim>\<open>re.search('^[A-Z]{5}(\d\d\d\d\d)', series)\<close>.\<close>

definition search_LA :: "string \<Rightarrow> string option" where
  "search_LA series =
     (let pre = take 5 series; g = take 5 (drop 5 series)
      in if length pre = 5 \<and> list_all is_upper pre \<and> length g = 5 \<and> list_all is_digit g
         then Some g else None)"

text \<open>
  \<^verbatim>\<open>re.search('^[A-Z]*(\d\d\d\d\d\d\d)', series)\<close>: capitals and digits are disjoint, so the
  only split that can match is the longest run of capitals followed by seven digits.
\<close>

definition search_OE :: "string \<Rightarrow> string option" where
  "search_OE series =
     (let g = take 7 (dropWhile is_upper series)
      in if length g = 7 \<and> list_all is_digit g then Some g else None)"

subsection \<open>\<^verbatim>\<open>get_location\<close>\<close>

text \<open>
  The two reference tables \<^verbatim>\<open>qcew_area_codes_df\<close> and \<^verbatim>\<open>oes_area_codes_df\<close> are
  imported from the package and not part of the class: they are parameters, maps from an
  area code to the title stored in column \<^verbatim>\<open>area_title\<close> (resp. \<^verbatim>\<open>area_name\<close>).
  \<^verbatim>\<open>.loc[code]\<close> raises \<^verbatim>\<open>KeyError\<close> on a code that is not a row label.

  The loop state is the local variable \<^verbatim>\<open>area_code\<close> (\<open>None\<close> while unbound; it keeps
  its value from one iteration to the next) and the dictionary
  \<^verbatim>\<open>series_id_locations\<close>.
\<close>

type_synonym loc_state = "string option \<times> (string \<rightharpoonup> string)"

text \<open>\<^verbatim>\<open>area_code = re.search(...).group(1)\<close>: \<^verbatim>\<open>None.group\<close> raises AttributeError.\<close>

definition group1 :: "string option \<Rightarrow> py_error + string" where
  "group1 m = (case m of None \<Rightarrow> Inl AttributeError | Some g \<Rightarrow> Inr g)"

text \<open>\<^verbatim>\<open>series_id_locations[series] = table.loc[area_code][column]\<close>.\<close>

definition store_location ::
  "(string \<rightharpoonup> string) \<Rightarrow> string \<Rightarrow> loc_state \<Rightarrow> py_error + loc_state" where
  "store_location table series st =
     (case fst st of
        None \<Rightarrow> Inl UnboundLocalError
      | Some area_code \<Rightarrow>
          (case table area_code of
             None \<Rightarrow> Inl KeyError
           | Some title \<Rightarrow> Inr (Some area_code, (snd st)(series \<mapsto> title))))"

text \<open>The first \<^verbatim>\<open>if\<close> of the loop body (lines 170-175).\<close>

definition locate_EN_LA ::
  "(string \<rightharpoonup> string) \<Rightarrow> string \<Rightarrow> loc_state \<Rightarrow> py_error + loc_state" where
  "locate_EN_LA qcew series st =
     (if match_EN_LA series then
        (case (if take 2 series = ''EN''
               then map_sum id (\<lambda>g. (Some g, snd st)) (group1 (search_EN series))
               else Inr st) of
           Inl e \<Rightarrow> Inl e
         | Inr st1 \<Rightarrow>
             (case (if take 2 series = ''LA''
                    then map_sum id (\<lambda>g. (Some g, snd st1)) (group1 (search_LA series))
                    else Inr st1) of
                Inl e \<Rightarrow> Inl e
              | Inr st2 \<Rightarrow> store_location qcew series st2))
      else Inr st)"

text \<open>The second \<^verbatim>\<open>if\<close> of the loop body (lines 176-178).\<close>

definition locate_OE ::
  "(string \<rightharpoonup> string) \<Rightarrow> string \<Rightarrow> loc_state \<Rightarrow> py_error + loc_state" where
  "locate_OE oes series st =
     (if match_OE series then
        (case group1 (search_OE series) of
           Inl e \<Rightarrow> Inl e
         | Inr g \<Rightarrow> store_location oes series (Some g, snd st))
      else Inr st)"

definition locate ::
  "(string \<rightharpoonup> string) \<Rightarrow> (string \<rightharpoonup> string) \<Rightarrow> loc_state \<Rightarrow> string \<Rightarrow> py_error + loc_state"
  where
  "locate qcew oes st series =
     (case locate_EN_LA qcew series st of
        Inl e \<Rightarrow> Inl e
      | Inr st1 \<Rightarrow> locate_OE oes series st1)"

fun locate_all ::
  "(string \<rightharpoonup> string) \<Rightarrow> (string \<rightharpoonup> string) \<Rightarrow> loc_state \<Rightarrow> string list \<Rightarrow> py_error + loc_state"
  where
  "locate_all qcew oes st [] = Inr st"
| "locate_all qcew oes st (series # rest) =
     (case locate qcew oes st series of
        Inl e \<Rightarrow> Inl e
      | Inr st1 \<Rightarrow> locate_all qcew oes st1 rest)"

text \<open>
  \<^verbatim>\<open>get_location\<close> iterates over \<^verbatim>\<open>self.series_id_list\<close>; iterating over \<^verbatim>\<open>None\<close>
  raises TypeError.
\<close>

definition get_location ::
  "(string \<rightharpoonup> string) \<Rightarrow> (string \<rightharpoonup> string) \<Rightarrow> string list option
     \<Rightarrow> py_error + (string \<rightharpoonup> string)" where
  "get_location qcew oes series_id_list =
     (case series_id_list of
        None \<Rightarrow> Inl TypeError
      | Some ids \<Rightarrow> map_sum id snd (locate_all qcew oes (None, Map.empty) ids))"

subsection \<open>Raw data\<close>

text \<open>
  The raw data is the list \<^verbatim>\<open>Results.series\<close> of the API's answer: each series is a
  dictionary with a \<^verbatim>\<open>seriesID\<close> and a list \<^verbatim>\<open>data\<close> of observations, of which
  \<^verbatim>\<open>_construct_df\<close> keeps the keys \<^verbatim>\<open>year\<close>, \<^verbatim>\<open>period\<close> and \<^verbatim>\<open>value\<close>, all of them
  JSON strings.
\<close>

record observation =
  obs_year :: string
  obs_period :: string
  obs_value :: string

record bls_series =
  seriesID :: string
  data :: "observation list"

type_synonym key = "string \<times> string"

definition obs_key :: "observation \<Rightarrow> key" where
  "obs_key ob = (obs_year ob, obs_period ob)"

subsection \<open>Tables\<close>

text \<open>
  The accumulator of \<^verbatim>\<open>_construct_df\<close> is a frame with the two key columns
  \<^verbatim>\<open>year\<close> and \<^verbatim>\<open>period\<close> followed by value columns: \<open>columns\<close> are the labels of the
  value columns, a row is its year, its period and one cell per value column, and a
  cell is \<open>None\<close> where pandas has NaN. Its row labels are the positions \<open>0, 1, ...\<close>,
  as after every merge. The type \<open>'v\<close> is the type of numbers.
\<close>

type_synonym 'v row = "string \<times> string \<times> 'v option list"

record 'v frame =
  columns :: "string list"
  rows :: "'v row list"

definition row_key :: "'v row \<Rightarrow> key" where
  "row_key r = (fst r, fst (snd r))"

definition row_cells :: "'v row \<Rightarrow> 'v option list" where
  "row_cells r = snd (snd r)"

text \<open>\<^verbatim>\<open>pd.DataFrame(columns=['year', 'period'])\<close>.\<close>

definition skeleton :: "'v frame" where
  "skeleton = \<lparr>columns = [], rows = []\<rparr>"

subsection \<open>\<^verbatim>\<open>_construct_df\<close>: one series\<close>

text \<open>
  \<^verbatim>\<open>pd.to_numeric\<close> is a parameter \<open>to_numeric\<close>: \<open>None\<close> where pandas cannot parse the
  string, and then the whole conversion raises ValueError.
\<close>

fun numeric_rows ::
  "(string \<Rightarrow> 'v option) \<Rightarrow> observation list \<Rightarrow> py_error + (key \<times> 'v) list" where
  "numeric_rows to_numeric [] = Inr []"
| "numeric_rows to_numeric (ob # obs) =
     (case to_numeric (obs_value ob) of
        None \<Rightarrow> Inl ValueError
      | Some v \<Rightarrow>
          (case numeric_rows to_numeric obs of
             Inl e \<Rightarrow> Inl e
           | Inr rs \<Rightarrow> Inr ((obs_key ob, v) # rs)))"

text \<open>
  Lines 88-91. A frame made from an empty list has no columns, so selecting
  \<^verbatim>\<open>['year', 'period', 'value']\<close> raises KeyError. The result is the label of the value
  column and the rows.
\<close>

definition series_df ::
  "(string \<Rightarrow> 'v option) \<Rightarrow> bls_series \<Rightarrow> py_error + (string \<times> (key \<times> 'v) list)" where
  "series_df to_numeric bls =
     (if data bls = [] then Inl KeyError
      else map_sum id (\<lambda>rs. (seriesID bls, rs)) (numeric_rows to_numeric (data bls)))"

subsection \<open>The outer merge\<close>

text \<open>
  \<^verbatim>\<open>df.merge(right=series_df, on=['year', 'period'], how='outer')\<close> as pandas documents
  it: a full outer join on the key, the keys sorted lexicographically. For each key the
  rows of the left frame with that key are paired with the rows of the right frame
  with that key; where one side has none, its cells are empty. Older versions of pandas
  leave the keys in their order of first appearance; the order of the merged rows only
  decides which row is row 0 for \<^verbatim>\<open>organize_df\<close>: with sorted keys, the row of the
  least pair.
\<close>

definition join_group ::
  "nat \<Rightarrow> 'v row list \<Rightarrow> (key \<times> 'v) list \<Rightarrow> key \<Rightarrow> 'v row list" where
  "join_group n left right k =
     (let ls = filter (\<lambda>r. row_key r = k) left;
          rs = filter (\<lambda>r. fst r = k) right
      in if ls = [] then map (\<lambda>r. (fst k, snd k, replicate n None @ [Some (snd r)])) rs
         else if rs = [] then map (\<lambda>l. (fst k, snd k, row_cells l @ [None])) ls
         else concat (map (\<lambda>l. map (\<lambda>r. (fst k, snd k, row_cells l @ [Some (snd r)])) rs) ls))"

text \<open>
  A column of integers that gains an empty cell in the merge becomes a column of
  floats. \<open>to_float\<close> is that conversion of a number to float64, the identity on a
  number that is a float already. The columns of the left frame gain empty cells when
  the right frame has a key the left frame has not, the column of the right frame when
  the left frame has a key the right frame has not.
\<close>

definition float_row :: "('v \<Rightarrow> 'v) \<Rightarrow> 'v row \<Rightarrow> 'v row" where
  "float_row to_float r = (fst r, fst (snd r), map (map_option to_float) (row_cells r))"

definition float_left :: "('v \<Rightarrow> 'v) \<Rightarrow> 'v row list \<Rightarrow> (key \<times> 'v) list \<Rightarrow> 'v row list" where
  "float_left to_float left right =
     (if set (map fst right) \<subseteq> set (map row_key left) then left
      else map (float_row to_float) left)"

definition float_right ::
  "('v \<Rightarrow> 'v) \<Rightarrow> 'v row list \<Rightarrow> (key \<times> 'v) list \<Rightarrow> (key \<times> 'v) list" where
  "float_right to_float left right =
     (if set (map row_key left) \<subseteq> set (map fst right) then right
      else map (\<lambda>r. (fst r, to_float (snd r))) right)"

text \<open>
  A value column labelled \<^verbatim>\<open>year\<close> or \<^verbatim>\<open>period\<close> makes the key label ambiguous in
  the right frame and the merge raises ValueError. A label that the left frame already
  has is disambiguated with the suffixes \<^verbatim>\<open>_x\<close> and \<^verbatim>\<open>_y\<close>.
\<close>

definition merge_outer ::
  "('v \<Rightarrow> 'v) \<Rightarrow> 'v frame \<Rightarrow> string \<times> (key \<times> 'v) list \<Rightarrow> py_error + 'v frame" where
  "merge_outer to_float df right =
     (let label = fst right in
      if label \<in> {''year'', ''period''} then Inl ValueError
      else
        Inr \<lparr>columns =
               (if label \<in> set (columns df)
                then map (\<lambda>c. if c = label then c @ ''_x'' else c) (columns df) @ [label @ ''_y'']
                else columns df @ [label]),
             rows =
               concat (map (join_group (length (columns df))
                              (float_left to_float (rows df) (snd right))
                              (float_right to_float (rows df) (snd right)))
                 (sort (remdups (map row_key (rows df) @ map fst (snd right)))))\<rparr>)"

text \<open>The loop of lines 87-92, from an accumulator.\<close>

fun merge_all ::
  "(string \<Rightarrow> 'v option) \<Rightarrow> ('v \<Rightarrow> 'v) \<Rightarrow> 'v frame \<Rightarrow> bls_series list
     \<Rightarrow> py_error + 'v frame" where
  "merge_all to_numeric to_float df [] = Inr df"
| "merge_all to_numeric to_float df (bls # rest) =
     (case series_df to_numeric bls of
        Inl e \<Rightarrow> Inl e
      | Inr sdf \<Rightarrow>
          (case merge_outer to_float df sdf of
             Inl e \<Rightarrow> Inl e
           | Inr df1 \<Rightarrow> merge_all to_numeric to_float df1 rest))"

subsection \<open>Dates and indexed tables\<close>

text \<open>
  A date is year, month, day. \<^verbatim>\<open>pd.to_datetime\<close> is a parameter \<open>to_datetime\<close>: its
  first argument is the \<^verbatim>\<open>format\<close> (\<open>None\<close> when the call gives none), its result
  \<open>None\<close> where pandas cannot parse the string, and then the call raises ValueError.
\<close>

type_synonym date = "nat \<times> nat \<times> nat"

type_synonym datetime_parser = "string option \<Rightarrow> string \<Rightarrow> date option"

text \<open>
  From \<^verbatim>\<open>set_index\<close> on, the columns of the table hold strings, numbers and dates side
  by side: a cell is one of the three, \<open>Num None\<close> is NaN. \<open>'v plain\<close> is a table with
  all its columns and positional row labels, \<open>'v table\<close> a table whose rows are labelled
  by an index cell.
\<close>

datatype 'v cell = Str string | Num "'v option" | Time date

record 'v plain =
  pcolumns :: "string list"
  prows :: "'v cell list list"

record 'v table =
  tcolumns :: "string list"
  trows :: "('v cell \<times> 'v cell list) list"

text \<open>
  The frame with its two key columns written out. A row has one cell per value column:
  \<open>fit\<close> reads a row of another length as its first cells, with NaN for missing ones.
\<close>

definition fit :: "nat \<Rightarrow> 'v option list \<Rightarrow> 'v option list" where
  "fit n cs = take n (cs @ replicate n None)"

definition plain_of :: "string list \<Rightarrow> 'v row list \<Rightarrow> 'v plain" where
  "plain_of cols rs =
     \<lparr>pcolumns = ''year'' # ''period'' # cols,
      prows = map (\<lambda>r. Str (fst r) # Str (fst (snd r))
                          # map Num (fit (length cols) (row_cells r))) rs\<rparr>"

text \<open>\<^verbatim>\<open>df[label] = vals\<close>: overwrite the column where the label exists, else append it.\<close>

definition assign :: "string \<Rightarrow> 'v cell list \<Rightarrow> 'v plain \<Rightarrow> 'v plain" where
  "assign label vals g =
     (if label \<in> set (pcolumns g)
      then \<lparr>pcolumns = pcolumns g,
            prows = map2 (\<lambda>v r. map2 (\<lambda>c x. if c = label then v else x) (pcolumns g) r)
                      vals (prows g)\<rparr>
      else \<lparr>pcolumns = pcolumns g @ [label],
            prows = map2 (\<lambda>v r. r @ [v]) vals (prows g)\<rparr>)"

text \<open>\<^verbatim>\<open>df.rename(columns={old: new}, errors='raise')\<close>.\<close>

definition rename_column :: "string \<Rightarrow> string \<Rightarrow> 'v plain \<Rightarrow> py_error + 'v plain" where
  "rename_column old new g =
     (if old \<in> set (pcolumns g)
      then Inr \<lparr>pcolumns = map (\<lambda>c. if c = old then new else c) (pcolumns g), prows = prows g\<rparr>
      else Inl KeyError)"

text \<open>The cells of a row under the labels that satisfy \<open>keep\<close>.\<close>

definition cells_where :: "(string \<Rightarrow> bool) \<Rightarrow> string list \<Rightarrow> 'a list \<Rightarrow> 'a list" where
  "cells_where keep cols r = map snd (filter (\<lambda>p. keep (fst p)) (zip cols r))"

text \<open>
  \<^verbatim>\<open>df.set_index(label)\<close>: KeyError when no column has the label; when several have it
  the index would be two-dimensional, a ValueError.
\<close>

definition set_index :: "string \<Rightarrow> 'v plain \<Rightarrow> py_error + 'v table" where
  "set_index label g =
     (if count_list (pcolumns g) label = 0 then Inl KeyError
      else if count_list (pcolumns g) label > 1 then Inl ValueError
      else Inr \<lparr>tcolumns = filter (\<lambda>c. c \<noteq> label) (pcolumns g),
                trows = map (\<lambda>r. (case cells_where (\<lambda>c. c = label) (pcolumns g) r of
                                     [] \<Rightarrow> Num None | x # _ \<Rightarrow> x,
                                   cells_where (\<lambda>c. c \<noteq> label) (pcolumns g) r))
                          (prows g)\<rparr>)"

text \<open>
  The order of \<^verbatim>\<open>sort_index\<close>: dates by calendar, strings by code points, numbers by
  value with NaN last. An index comes from one column, so its cells are of one kind;
  \<open>cell_key\<close> orders the kinds only to be total.
\<close>

definition cell_key :: "'v cell \<Rightarrow> nat \<times> date \<times> string \<times> bool \<times> 'v option" where
  "cell_key c =
     (case c of
        Time d \<Rightarrow> (0, d, [], False, None)
      | Str s \<Rightarrow> (1, (0, 0, 0), s, False, None)
      | Num x \<Rightarrow> (2, (0, 0, 0), [], x = None, x))"

definition index_le :: "'v::linorder cell \<Rightarrow> 'v cell \<Rightarrow> bool" where
  "index_le a b = (cell_key a \<le> cell_key b)"

text \<open>
  \<^verbatim>\<open>df.sort_index()\<close>, ascending. Rows with equal index keep their order here; pandas
  promises no order among them.
\<close>

definition sort_index :: "'v::linorder table \<Rightarrow> 'v table" where
  "sort_index t = \<lparr>tcolumns = tcolumns t, trows = sort_key (\<lambda>r. cell_key (fst r)) (trows t)\<rparr>"

text \<open>\<^verbatim>\<open>df.drop(columns=names, errors='ignore')\<close>: labels that are absent are skipped.\<close>

definition drop_columns :: "string list \<Rightarrow> 'v table \<Rightarrow> 'v table" where
  "drop_columns names t =
     \<lparr>tcolumns = filter (\<lambda>c. c \<notin> set names) (tcolumns t),
      trows = map (\<lambda>r. (fst r, cells_where (\<lambda>c. c \<notin> set names) (tcolumns t) (snd r))) (trows t)\<rparr>"

subsection \<open>\<^verbatim>\<open>organize_df\<close>\<close>

text \<open>\<^verbatim>\<open>df.loc[0]['period'][0]\<close>: KeyError without a row 0, IndexError on an empty code.\<close>

definition first_period_char :: "'v row list \<Rightarrow> py_error + char" where
  "first_period_char rs =
     (case rs of
        [] \<Rightarrow> Inl KeyError
      | r # _ \<Rightarrow> (case fst (snd r) of [] \<Rightarrow> Inl IndexError | c # _ \<Rightarrow> Inr c))"

fun to_datetime_all :: "(string \<Rightarrow> date option) \<Rightarrow> string list \<Rightarrow> py_error + date list" where
  "to_datetime_all parse [] = Inr []"
| "to_datetime_all parse (s # ss) =
     (case parse s of
        None \<Rightarrow> Inl ValueError
      | Some d \<Rightarrow>
          (case to_datetime_all parse ss of
             Inl e \<Rightarrow> Inl e
           | Inr ds \<Rightarrow> Inr (d # ds)))"

text \<open>\<^verbatim>\<open>df['period'] = df['period'].str.replace(ch, '')\<close>: every occurrence goes.\<close>

definition replace_in_row :: "char \<Rightarrow> 'v row \<Rightarrow> 'v row" where
  "replace_in_row ch r = (fst r, filter (\<lambda>c. c \<noteq> ch) (fst (snd r)), snd (snd r))"

definition replace_period :: "char \<Rightarrow> 'v row list \<Rightarrow> 'v row list" where
  "replace_period ch rs = map (replace_in_row ch) rs"

text \<open>Line 105: \<^verbatim>\<open>df['year'].map(str) + '-' + df['period'].map(str)\<close>.\<close>

definition quarter_string :: "'v row \<Rightarrow> string" where
  "quarter_string r = fst r @ ''-'' @ fst (snd r)"

text \<open>Line 111: \<^verbatim>\<open>df['period'].map(str) + '-' + df['year'].map(str)\<close>.\<close>

definition month_string :: "'v row \<Rightarrow> string" where
  "month_string r = fst (snd r) @ ''-'' @ fst r"

text \<open>
  The state between the three \<^verbatim>\<open>if\<close>s: the rows and the column \<^verbatim>\<open>date\<close>, once a
  branch has assigned it.
\<close>

type_synonym 'v work = "'v row list \<times> date list option"

text \<open>Lines 103-106.\<close>

definition quarterly :: "datetime_parser \<Rightarrow> 'v work \<Rightarrow> py_error + 'v work" where
  "quarterly to_datetime w =
     (let rs = replace_period (CHR ''0'') (fst w)
      in map_sum id (\<lambda>ds. (rs, Some ds))
           (to_datetime_all (to_datetime None) (map quarter_string rs)))"

text \<open>Lines 109-112.\<close>

definition monthly :: "datetime_parser \<Rightarrow> 'v work \<Rightarrow> py_error + 'v work" where
  "monthly to_datetime w =
     (let rs = replace_period (CHR ''M'') (fst w)
      in map_sum id (\<lambda>ds. (rs, Some ds))
           (to_datetime_all (to_datetime (Some ''%m-%Y'')) (map month_string rs)))"

text \<open>
  Lines 115-125: the annual branch renames \<^verbatim>\<open>year\<close>, then the index is set, the rows
  sorted and the two key columns dropped.
\<close>

definition finish :: "string list \<Rightarrow> 'v::linorder work \<Rightarrow> bool \<Rightarrow> py_error + 'v table" where
  "finish cols w annual =
     (let g0 = plain_of cols (fst w);
          g1 = (case snd w of None \<Rightarrow> g0 | Some ds \<Rightarrow> assign ''date'' (map Time ds) g0)
      in case (if annual then rename_column ''year'' ''date'' g1 else Inr g1) of
           Inl e \<Rightarrow> Inl e
         | Inr g2 \<Rightarrow>
             (case set_index ''date'' g2 of
                Inl e \<Rightarrow> Inl e
              | Inr t \<Rightarrow> Inr (drop_columns [''period'', ''year''] (sort_index t))))"

definition organize_df :: "datetime_parser \<Rightarrow> 'v::linorder frame \<Rightarrow> py_error + 'v table" where
  "organize_df to_datetime df =
     (case first_period_char (rows df) of
        Inl e \<Rightarrow> Inl e
      | Inr c1 \<Rightarrow>
     (case (if c1 = CHR ''Q'' then quarterly to_datetime (rows df, None)
            else Inr (rows df, None)) of
        Inl e \<Rightarrow> Inl e
      | Inr w1 \<Rightarrow>
     (case first_period_char (fst w1) of
        Inl e \<Rightarrow> Inl e
      | Inr c2 \<Rightarrow>
     (case (if c2 = CHR ''M'' then monthly to_datetime w1 else Inr w1) of
        Inl e \<Rightarrow> Inl e
      | Inr w2 \<Rightarrow>
     (case first_period_char (fst w2) of
        Inl e \<Rightarrow> Inl e
      | Inr c3 \<Rightarrow> finish (columns df) w2 (c3 = CHR ''A''))))))"

text \<open>
  The cells that \<^verbatim>\<open>organize_df\<close> leaves of a row: those of the value columns, without
  the columns the final \<^verbatim>\<open>drop\<close> removes.
\<close>

definition kept_cells :: "string list \<Rightarrow> 'v row \<Rightarrow> 'v cell list" where
  "kept_cells cols r =
     cells_where (\<lambda>c. c \<notin> set [''period'', ''year'']) cols
       (map Num (fit (length cols) (row_cells r)))"

text \<open>
  The specification's words for the two date strings, to compare with lines 104-105
  and 110-111: "strip leading zero digit from period suffix, concatenate as
  \<^verbatim>\<open><year>-<quarter>\<close>" and "strip the \<^verbatim>\<open>M\<close> marker, concatenate as
  \<^verbatim>\<open><month>-<year>\<close>".
\<close>

definition spec_strip_leading_zero :: "string \<Rightarrow> string" where
  "spec_strip_leading_zero p =
     (case p of
        c # d # rest \<Rightarrow> if d = CHR ''0'' then c # rest else p
      | _ \<Rightarrow> p)"

definition spec_quarter_string :: "'v row \<Rightarrow> string" where
  "spec_quarter_string r = fst r @ ''-'' @ spec_strip_leading_zero (fst (snd r))"

definition spec_strip_marker :: "string \<Rightarrow> string" where
  "spec_strip_marker p =
     (case p of
        c # rest \<Rightarrow> if c = CHR ''M'' then rest else p
      | _ \<Rightarrow> p)"

definition spec_month_string :: "'v row \<Rightarrow> string" where
  "spec_month_string r = spec_strip_marker (fst (snd r)) @ ''-'' @ fst r"

text \<open>\<^verbatim>\<open>_construct_df\<close>: the merge loop from the empty skeleton, then \<^verbatim>\<open>organize_df\<close>.\<close>

definition construct_df ::
  "(string \<Rightarrow> 'v option) \<Rightarrow> ('v \<Rightarrow> 'v) \<Rightarrow> datetime_parser \<Rightarrow> bls_series list
     \<Rightarrow> py_error + 'v::linorder table"
  where
  "construct_df to_numeric to_float to_datetime raw_data =
     (case merge_all to_numeric to_float skeleton raw_data of
        Inl e \<Rightarrow> Inl e
      | Inr df \<Rightarrow> organize_df to_datetime df)"

subsection \<open>Files and the constructor\<close>

text \<open>
  What the class takes from outside: the HTTP API (\<^verbatim>\<open>requests.post\<close> and the decoding
  of its answer, which may raise), the two pandas parsers and the conversion to
  float64, the two reference tables and the files of the working directory. A file is modelled by the raw data that
  \<^verbatim>\<open>json.load\<close> reads from it.
\<close>

type_synonym files = "string \<rightharpoonup> bls_series list"

record 'v env =
  env_api :: "string list option \<Rightarrow> string option \<Rightarrow> string option \<Rightarrow> py_error + bls_series list"
  env_to_numeric :: "string \<Rightarrow> 'v option"
  env_to_float :: "'v \<Rightarrow> 'v"
  env_to_datetime :: datetime_parser
  env_qcew :: "string \<rightharpoonup> string"
  env_oes :: "string \<rightharpoonup> string"

record 'v bls_data =
  self_series_id_list :: "string list option"
  self_start_year :: "string option"
  self_end_year :: "string option"
  self_raw_data :: "bls_series list"
  self_df :: "'v table"
  self_locations :: "string \<rightharpoonup> string"

text \<open>Python's truth value of an optional list: \<^verbatim>\<open>None\<close> and \<^verbatim>\<open>[]\<close> are false.\<close>

definition truthy :: "'a list option \<Rightarrow> bool" where
  "truthy x = (case x of None \<Rightarrow> False | Some xs \<Rightarrow> xs \<noteq> [])"

definition request_bls_data ::
  "'v env \<Rightarrow> string list option \<Rightarrow> string option \<Rightarrow> string option \<Rightarrow> py_error + bls_series list"
  where
  "request_bls_data env series_id_list start_year end_year =
     env_api env series_id_list start_year end_year"

text \<open>
  \<^verbatim>\<open>def _read_bls_file(self)\<close> has no parameter besides \<^verbatim>\<open>self\<close>: \<open>args\<close> are the
  positional arguments of the call, and a call with any raises TypeError before the
  body runs. The body opens the fixed name \<^verbatim>\<open>raw_data3_3.json\<close>.
\<close>

definition read_bls_file :: "'a list \<Rightarrow> files \<Rightarrow> py_error + bls_series list" where
  "read_bls_file args fs =
     (if args \<noteq> [] then Inl TypeError
      else case fs ''raw_data3_3.json'' of
             None \<Rightarrow> Inl FileNotFoundError
           | Some d \<Rightarrow> Inr d)"

text \<open>
  \<^verbatim>\<open>write_to_bls_file(self, raw_data, file_name)\<close> opens the literal \<^verbatim>\<open>"file_name"\<close> and
  dumps \<^verbatim>\<open>self.raw_data\<close>; neither parameter is read.
\<close>

definition write_to_bls_file ::
  "'v bls_data \<Rightarrow> bls_series list \<Rightarrow> string \<Rightarrow> files \<Rightarrow> files" where
  "write_to_bls_file self raw_data file_name fs = fs(''file_name'' \<mapsto> self_raw_data self)"

text \<open>Lines 33-36 of \<^verbatim>\<open>__init__\<close>.\<close>

definition load_raw_data ::
  "'v env \<Rightarrow> files \<Rightarrow> string list option \<Rightarrow> string option \<Rightarrow> string option
     \<Rightarrow> bls_series list option \<Rightarrow> py_error + bls_series list" where
  "load_raw_data env fs series_id_list start_year end_year raw_data =
     (if \<not> truthy raw_data \<and> truthy series_id_list
      then request_bls_data env series_id_list start_year end_year
      else read_bls_file [raw_data] fs)"

text \<open>\<^verbatim>\<open>__init__\<close>; its parameter \<^verbatim>\<open>json_file\<close> is never read.\<close>

definition init ::
  "'v::linorder env \<Rightarrow> files \<Rightarrow> string list option \<Rightarrow> string option \<Rightarrow> string option
     \<Rightarrow> string option \<Rightarrow> bls_series list option \<Rightarrow> py_error + 'v bls_data" where
  "init env fs series_id_list start_year end_year json_file raw_data =
     (case load_raw_data env fs series_id_list start_year end_year raw_data of
        Inl e \<Rightarrow> Inl e
      | Inr raw \<Rightarrow>
          (case construct_df (env_to_numeric env) (env_to_float env) (env_to_datetime env) raw of
             Inl e \<Rightarrow> Inl e
           | Inr d \<Rightarrow>
               (case get_location (env_qcew env) (env_oes env) series_id_list of
                  Inl e \<Rightarrow> Inl e
                | Inr locs \<Rightarrow>
                    Inr \<lparr>self_series_id_list = series_id_list, self_start_year = start_year,
                         self_end_year = end_year, self_raw_data = raw, self_df = d,
                         self_locations = locs\<rparr>)))"

subsection \<open>Concrete parsers for the closed examples\<close>

text \<open>
  The closed examples below need the two pandas parsers at a few strings. \<open>digits_value\<close>
  and \<open>bls_to_datetime\<close> stand for them there: they give the value pandas gives on the
  strings they accept (a run of decimal digits; a four-digit year, \<^verbatim>\<open>-Q\<close> and a
  quarter from 1 to 4 without a format, which pandas reads as the first day of the
  quarter; a month from 1 to 12, \<^verbatim>\<open>-\<close> and a four-digit year under \<^verbatim>\<open>%m-%Y\<close>, the first
  day of the month) and \<open>None\<close> elsewhere. The numbers of the examples are small
  naturals, which float64 holds exactly: there \<open>id\<close> stands for the conversion to
  float64.
\<close>

definition digit_value :: "char \<Rightarrow> nat" where
  "digit_value c = of_char c - of_char (CHR ''0'')"

definition digits_value :: "string \<Rightarrow> nat option" where
  "digits_value s =
     (if s \<noteq> [] \<and> list_all is_digit s
      then Some (foldl (\<lambda>n c. 10 * n + digit_value c) 0 s) else None)"

definition month_value :: "string \<Rightarrow> nat option" where
  "month_value s =
     (case digits_value s of
        None \<Rightarrow> None
      | Some m \<Rightarrow> if length s \<le> 2 \<and> 1 \<le> m \<and> m \<le> 12 then Some m else None)"

definition year_value :: "string \<Rightarrow> nat option" where
  "year_value s =
     (case digits_value s of
        None \<Rightarrow> None
      | Some y \<Rightarrow> if length s = 4 \<and> 1678 \<le> y \<and> y \<le> 2261 then Some y else None)"

definition bls_to_datetime :: datetime_parser where
  "bls_to_datetime fmt s =
     (if fmt = None then
        (if length s = 7 \<and> take 2 (drop 4 s) = ''-Q'' \<and> drop 6 s \<in> set [''1'', ''2'', ''3'', ''4'']
         then (case year_value (take 4 s) of
                 None \<Rightarrow> None
               | Some y \<Rightarrow> Some (y, 3 * (digit_value (s ! 6) - 1) + 1, 1))
         else None)
      else if fmt = Some ''%m-%Y'' then
        (case (month_value (takeWhile (\<lambda>c. c \<noteq> CHR ''-'') s),
               year_value (drop 1 (dropWhile (\<lambda>c. c \<noteq> CHR ''-'') s))) of
           (Some m, Some y) \<Rightarrow> if CHR ''-'' \<in> set s then Some (y, m, 1) else None
         | _ \<Rightarrow> None)
      else None)"

text \<open>
  A series and an environment for the closed examples: the consumer price index, whose
  identifier has no area code, as the only series the API returns.
\<close>

definition cpi_series :: bls_series where
  "cpi_series = \<lparr>seriesID = ''CUUR0000SA0'',
      data = [\<lparr>obs_year = ''2021'', obs_period = ''M03'', obs_value = ''264''\<rparr>]\<rparr>"

definition online_env :: "nat env" where
  "online_env = \<lparr>env_api = (\<lambda>ids start_year end_year. Inr [cpi_series]),
      env_to_numeric = digits_value, env_to_float = id, env_to_datetime = bls_to_datetime,
      env_qcew = Map.empty, env_oes = Map.empty\<rparr>"

text \<open>
  What the raw data says, to state the result of the merge: the (year, period) pairs
  observed across all series, and the number a series reports at a pair, \<open>None\<close> when
  it reports none.
\<close>

definition all_keys :: "bls_series list \<Rightarrow> key set" where
  "all_keys raw = (\<Union>bls\<in>set raw. set (map obs_key (data bls)))"

definition reported :: "(string \<Rightarrow> 'v option) \<Rightarrow> bls_series \<Rightarrow> key \<Rightarrow> 'v option" where
  "reported to_numeric bls k =
     (case find (\<lambda>ob. obs_key ob = k) (data bls) of
        None \<Rightarrow> None
      | Some ob \<Rightarrow> to_numeric (obs_value ob))"

text \<open>
  The cell of a series in the row of a pair, once all series are merged: the number
  reported, converted to float64 when the column has an empty cell, that is when the
  series does not report every pair observed.
\<close>

definition reported_cell ::
  "(string \<Rightarrow> 'v option) \<Rightarrow> ('v \<Rightarrow> 'v) \<Rightarrow> bls_series list \<Rightarrow> bls_series \<Rightarrow> key
     \<Rightarrow> 'v option" where
  "reported_cell to_numeric to_float raw bls k =
     (if all_keys raw \<subseteq> set (map obs_key (data bls)) then reported to_numeric bls k
      else map_option to_float (reported to_numeric bls k))"

text \<open>
  The index that \<^verbatim>\<open>organize_df\<close> derives for a (year, period) pair when \<open>c\<close> is the
  first character of the period code in row 0: the date parsed from the quarterly or
  the monthly string, and the year itself on annual data.
\<close>

definition index_of :: "datetime_parser \<Rightarrow> char \<Rightarrow> key \<Rightarrow> 'v cell" where
  "index_of to_datetime c k =
     (if c = CHR ''Q''
      then Time (the (to_datetime None
                        (fst k @ ''-'' @ filter (\<lambda>x. x \<noteq> CHR ''0'') (snd k))))
      else if c = CHR ''M''
      then Time (the (to_datetime (Some ''%m-%Y'')
                        (filter (\<lambda>x. x \<noteq> CHR ''M'') (snd k) @ ''-'' @ fst k)))
      else Str (fst k))"

text \<open>Series for the closed examples.\<close>

definition series_A :: bls_series where
  "series_A = \<lparr>seriesID = ''A'',
      data = [\<lparr>obs_year = ''2020'', obs_period = ''Q02'', obs_value = ''6''\<rparr>,
              \<lparr>obs_year = ''2020'', obs_period = ''Q01'', obs_value = ''5''\<rparr>]\<rparr>"

definition series_B :: bls_series where
  "series_B = \<lparr>seriesID = ''B'',
      data = [\<lparr>obs_year = ''2020'', obs_period = ''Q02'', obs_value = ''7''\<rparr>,
              \<lparr>obs_year = ''2019'', obs_period = ''Q04'', obs_value = ''8''\<rparr>]\<rparr>"

definition series_twice :: bls_series where
  "series_twice = \<lparr>seriesID = ''A'',
      data = [\<lparr>obs_year = ''2020'', obs_period = ''Q01'', obs_value = ''1''\<rparr>,
              \<lparr>obs_year = ''2020'', obs_period = ''Q01'', obs_value = ''2''\<rparr>]\<rparr>"

definition series_date :: bls_series where
  "series_date = \<lparr>seriesID = ''date'',
      data = [\<lparr>obs_year = ''2020'', obs_period = ''Q01'', obs_value = ''1''\<rparr>]\<rparr>"

text \<open>
  Notions for the proofs about the merge: the cells the left frame gives to the row of
  a key, and the frame that the loop has built once it has seen a list of series.
\<close>

definition left_cells :: "nat \<Rightarrow> 'v row list \<Rightarrow> key \<Rightarrow> 'v option list" where
  "left_cells n left k =
     (case find (\<lambda>r. row_key r = k) left of None \<Rightarrow> replicate n None | Some l \<Rightarrow> row_cells l)"

definition merged ::
  "(string \<Rightarrow> 'v option) \<Rightarrow> ('v \<Rightarrow> 'v) \<Rightarrow> bls_series list \<Rightarrow> 'v frame \<Rightarrow> bool" where
  "merged to_numeric to_float seen df \<longleftrightarrow>
     columns df = map seriesID seen
     \<and> distinct (map row_key (rows df))
     \<and> sorted (map row_key (rows df))
     \<and> set (map row_key (rows df)) = all_keys seen
     \<and> (\<forall>r\<in>set (rows df).
           row_cells r = map (\<lambda>bls. reported_cell to_numeric to_float seen bls (row_key r)) seen)"

text \<open>Three small tables for the closed examples.\<close>

definition quarterly_frame :: "nat frame" where
  "quarterly_frame = \<lparr>columns = [''S''],
      rows = [(''2020'', ''Q04'', [Some 2]), (''2020'', ''Q01'', [Some 1])]\<rparr>"

definition monthly_frame :: "nat frame" where
  "monthly_frame = \<lparr>columns = [''S''],
      rows = [(''2021'', ''M03'', [Some 2]), (''2020'', ''M12'', [Some 1])]\<rparr>"

definition annual_frame :: "nat frame" where
  "annual_frame = \<lparr>columns = [''S''],
      rows = [(''2021'', ''A01'', [Some 2]), (''2019'', ''A01'', [Some 1])]\<rparr>"

section \<open>Location resolution\<close>

lemma locate_all_append:
  "locate_all qcew oes st (xs @ ys) =
     (case locate_all qcew oes st xs of Inl e \<Rightarrow> Inl e | Inr st1 \<Rightarrow> locate_all qcew oes st1 ys)"
  by (induction xs arbitrary: st) (auto split: sum.splits)

lemma take2_match_EN: "take 2 s = ''EN'' \<Longrightarrow> match_EN_LA s"
  by (simp add: match_EN_LA_def)

lemma take2_match_LA: "take 2 s = ''LA'' \<Longrightarrow> match_EN_LA s"
  by (simp add: match_EN_LA_def)

lemma take2_OE_no_match: "take 2 s = ''OE'' \<Longrightarrow> \<not> match_EN_LA s"
  by (simp add: match_EN_LA_def)

lemma locate_unknown_EN:
  "take 2 s = ''EN'' \<Longrightarrow> search_EN s = Some c \<Longrightarrow> qcew c = None
     \<Longrightarrow> locate qcew oes st s = Inl KeyError"
  by (simp add: locate_def locate_EN_LA_def take2_match_EN group1_def store_location_def)

lemma locate_unknown_LA:
  "take 2 s = ''LA'' \<Longrightarrow> search_LA s = Some c \<Longrightarrow> qcew c = None
     \<Longrightarrow> locate qcew oes st s = Inl KeyError"
  by (simp add: locate_def locate_EN_LA_def take2_match_LA group1_def store_location_def)

lemma locate_unknown_OE:
  "take 2 s = ''OE'' \<Longrightarrow> search_OE s = Some c \<Longrightarrow> oes c = None
     \<Longrightarrow> locate qcew oes st s = Inl KeyError"
  by (simp add: locate_def locate_EN_LA_def locate_OE_def match_OE_def take2_OE_no_match
      group1_def store_location_def)

text \<open>
  Claim C7. An identifier \<open>s\<close> that starts with \<^verbatim>\<open>EN\<close>, \<^verbatim>\<open>LA\<close> or \<^verbatim>\<open>OE\<close> and whose
  extracted area code \<open>c\<close> is not a key of the reference table of its family makes
  \<^verbatim>\<open>get_location\<close> raise KeyError: no label is produced for it. The identifiers \<open>pre\<close>
  before it in the list are those the loop has resolved without an error; whatever
  follows it in the list is never reached.
\<close>

theorem get_location_unknown_code:
  assumes pre: "get_location qcew oes (Some pre) = Inr m"
    and unknown:
      "(take 2 s = ''EN'' \<and> search_EN s = Some c \<and> qcew c = None)
       \<or> (take 2 s = ''LA'' \<and> search_LA s = Some c \<and> qcew c = None)
       \<or> (take 2 s = ''OE'' \<and> search_OE s = Some c \<and> oes c = None)"
  shows "get_location qcew oes (Some (pre @ s # post)) = Inl KeyError"
proof -
  from pre obtain st where st: "locate_all qcew oes (None, Map.empty) pre = Inr st"
    by (cases "locate_all qcew oes (None, Map.empty) pre") (auto simp: get_location_def)
  from unknown have "locate qcew oes st s = Inl KeyError"
    using locate_unknown_EN locate_unknown_LA locate_unknown_OE by blast
  with st show ?thesis
    by (simp add: get_location_def locate_all_append)
qed

theorem get_location_unknown_code_witness:
  "get_location Map.empty Map.empty (Some []) = Inr Map.empty
   \<and> take 2 ''ENU0400010010'' = ''EN'' \<and> search_EN ''ENU0400010010'' = Some ''04000''
   \<and> get_location Map.empty Map.empty
         (Some ([] @ ''ENU0400010010'' # [''OEUM000000000000000000001''])) = Inl KeyError"
proof -
  have a: "get_location Map.empty Map.empty (Some []) = Inr Map.empty"
    by (simp add: get_location_def)
  have b: "take 2 ''ENU0400010010'' = ''EN'' \<and> search_EN ''ENU0400010010'' = Some ''04000''"
    by (simp add: search_EN_def is_upper_def is_digit_def)
  from get_location_unknown_code
    [OF a, of "''ENU0400010010''" "''04000''" "[''OEUM000000000000000000001'']"] b
  show ?thesis using a by simp
qed

text \<open>
  Claim C8. An identifier that starts with none of \<^verbatim>\<open>EN\<close>, \<^verbatim>\<open>LA\<close>, \<^verbatim>\<open>OE\<close> should be
  skipped without an error. The code does not skip \<^verbatim>\<open>LNS14000000\<close>, the national
  unemployment rate: the pattern \<^verbatim>\<open>[EN|LA]\<close> is a character class and accepts the
  leading \<^verbatim>\<open>L\<close>, neither prefix test assigns \<^verbatim>\<open>area_code\<close>, and the lookup reads the
  unbound variable.
\<close>

theorem get_location_other_prefix:
  "get_location qcew oes (Some [''LNS14000000'']) = Inl UnboundLocalError"
  by (simp add: get_location_def locate_def locate_EN_LA_def match_EN_LA_def store_location_def)

section \<open>The constructor and the file round trip\<close>

lemma construct_cpi:
  "construct_df digits_value id bls_to_datetime [cpi_series]
     = Inr \<lparr>tcolumns = [''CUUR0000SA0''], trows = [(Time (2021, 3, 1), [Num (Some 264)])]\<rparr>"
  by code_simp

lemma locate_cpi: "get_location Map.empty Map.empty (Some [''CUUR0000SA0'']) = Inr Map.empty"
  by (simp add: get_location_def locate_def locate_EN_LA_def locate_OE_def match_EN_LA_def
      match_OE_def)

text \<open>
  Claim C10, as stated, fails: a call that supplies \<^verbatim>\<open>raw_data=[]\<close> together with a
  list of identifiers takes the fetching branch, because the test is on the truth
  value of \<^verbatim>\<open>raw_data\<close>, and the constructor returns an object.
\<close>

theorem init_empty_raw_data_fetches:
  "init online_env Map.empty (Some [''CUUR0000SA0'']) None None None (Some [])
     = Inr \<lparr>self_series_id_list = Some [''CUUR0000SA0''], self_start_year = None,
            self_end_year = None, self_raw_data = [cpi_series],
            self_df = \<lparr>tcolumns = [''CUUR0000SA0''],
                       trows = [(Time (2021, 3, 1), [Num (Some 264)])]\<rparr>,
            self_locations = Map.empty\<rparr>"
  by (simp add: init_def load_raw_data_def truthy_def request_bls_data_def online_env_def
      construct_cpi locate_cpi)

text \<open>
  Claim C10, amended. For every constructor call in which \<^verbatim>\<open>raw_data\<close> is supplied and
  not empty, or in which \<^verbatim>\<open>series_id_list\<close> is absent or empty, \<^verbatim>\<open>__init__\<close> raises
  TypeError before any table is built: it calls \<^verbatim>\<open>_read_bls_file\<close> with an argument and
  the method takes none. The offline path never succeeds.
\<close>

theorem init_offline_type_error:
  assumes "truthy raw_data \<or> \<not> truthy series_id_list"
  shows "init env fs series_id_list start_year end_year json_file raw_data = Inl TypeError"
  using assms by (auto simp: init_def load_raw_data_def read_bls_file_def)

theorem init_offline_type_error_witness:
  "truthy (Some [cpi_series]) \<and>
   init online_env Map.empty (Some [''CUUR0000SA0'']) None None None (Some [cpi_series])
     = Inl TypeError"
proof -
  have h: "truthy (Some [cpi_series]) \<or> \<not> truthy (Some [''CUUR0000SA0''])"
    by (simp add: truthy_def)
  from init_offline_type_error [OF h] show ?thesis by (simp add: truthy_def)
qed

text \<open>
  Claim C9. Writing the raw data to a file and building an object that loads it again
  should give the table of the original data. In the code the second construction
  raises TypeError, for any object \<open>self\<close> that wrote the file; and the file written is
  not the one \<^verbatim>\<open>_read_bls_file\<close> opens, so that reading, called as it is declared,
  finds what was there before the write.
\<close>

theorem write_then_reload:
  "init env (write_to_bls_file self [cpi_series] ''saved.json'' fs) None None None
       (Some ''saved.json'') (Some [cpi_series]) = Inl TypeError
   \<and> read_bls_file [] (write_to_bls_file self [cpi_series] ''saved.json'' fs)
       = read_bls_file [] fs"
  by (simp add: init_def load_raw_data_def truthy_def read_bls_file_def write_to_bls_file_def)

section \<open>The empty table\<close>

text \<open>
  Claim C5. On a table without rows \<^verbatim>\<open>organize_df\<close> raises: \<^verbatim>\<open>df.loc[0]\<close> finds no first
  row, and no table is returned.
\<close>

theorem organize_df_empty:
  "organize_df to_datetime \<lparr>columns = cols, rows = []\<rparr> = Inl KeyError"
  by (simp add: organize_df_def first_period_char_def)

theorem organize_df_empty_witness:
  "organize_df bls_to_datetime \<lparr>columns = [''CUUR0000SA0''], rows = ([] :: nat row list)\<rparr>
     = Inl KeyError"
  using organize_df_empty [of bls_to_datetime "[''CUUR0000SA0'']"] by simp

text \<open>
  Claim C6, as stated, fails: with no series \<^verbatim>\<open>_construct_df\<close> returns no table at all,
  it raises KeyError.
\<close>

theorem construct_df_no_series_raises:
  "construct_df digits_value id bls_to_datetime [] = (Inl KeyError :: py_error + nat table)"
  by (simp add: construct_df_def skeleton_def organize_df_def first_period_char_def)

text \<open>
  Claim C6, amended. With no series the merge loop leaves the empty two-column
  skeleton (the columns \<^verbatim>\<open>year\<close> and \<^verbatim>\<open>period\<close>, no value column, no row), and
  \<^verbatim>\<open>_construct_df\<close>, which hands it to \<^verbatim>\<open>organize_df\<close>, raises KeyError.
\<close>

theorem construct_df_no_series:
  "merge_all to_numeric to_float skeleton [] = Inr \<lparr>columns = [], rows = []\<rparr>
   \<and> construct_df to_numeric to_float to_datetime [] = Inl KeyError"
  by (simp add: construct_df_def skeleton_def organize_df_def first_period_char_def)

theorem construct_df_no_series_witness:
  "merge_all digits_value id skeleton [] = Inr \<lparr>columns = [], rows = []\<rparr>
   \<and> construct_df digits_value id bls_to_datetime [] = (Inl KeyError :: py_error + nat table)"
  using construct_df_no_series [of digits_value id bls_to_datetime] by simp

section \<open>Date derivation, sorting and dropping\<close>

subsection \<open>Columns and cells\<close>

lemma length_fit [simp]: "length (fit n cs) = n"
  by (simp add: fit_def)

lemma cells_where_Nil [simp]: "cells_where P [] xs = []" "cells_where P cs [] = []"
  by (simp_all add: cells_where_def)

lemma cells_where_Cons [simp]:
  "cells_where P (c # cs) (x # xs) = (if P c then x # cells_where P cs xs else cells_where P cs xs)"
  by (simp add: cells_where_def)

lemma cells_where_append:
  "length cs = length xs \<Longrightarrow>
   cells_where P (cs @ cs') (xs @ xs') = cells_where P cs xs @ cells_where P cs' xs'"
  by (simp add: cells_where_def)

lemma cells_where_all:
  "length cs = length xs \<Longrightarrow> (\<forall>c\<in>set cs. P c) \<Longrightarrow> cells_where P cs xs = xs"
  by (induction cs xs rule: list_induct2) auto

lemma cells_where_none:
  "(\<forall>c\<in>set cs. \<not> P c) \<Longrightarrow> cells_where P cs xs = []"
  by (induction cs arbitrary: xs) (auto simp: cells_where_def split: list.splits, (case_tac xs, auto)+)

lemma plain_assign_date:
  assumes "''date'' \<notin> set cols"
  shows "assign ''date'' (map Time ds) (plain_of cols rs)
     = \<lparr>pcolumns = ''year'' # ''period'' # cols @ [''date''],
        prows = map (\<lambda>p. Str (fst (snd p)) # Str (fst (snd (snd p)))
                        # map Num (fit (length cols) (row_cells (snd p))) @ [Time (fst p)])
                  (zip ds rs)\<rparr>"
  using assms by (simp add: assign_def plain_of_def zip_map_map split_def)

lemma filter_not_mem: "l \<notin> set cols \<Longrightarrow> filter (\<lambda>c. c \<noteq> l) cols = cols"
  by (induction cols) auto

lemma cells_where_neq_all:
  "l \<notin> set cols \<Longrightarrow> length xs = length cols \<Longrightarrow> cells_where (\<lambda>c. c \<noteq> l) cols xs = xs"
  by (rule cells_where_all) auto

lemma cells_where_eq_none:
  "l \<notin> set cols \<Longrightarrow> cells_where (\<lambda>c. c = l) cols xs = []"
  by (rule cells_where_none) auto

lemma set_index_date:
  assumes "''date'' \<notin> set cols"
  shows "set_index ''date'' (assign ''date'' (map Time ds) (plain_of cols rs))
     = Inr \<lparr>tcolumns = ''year'' # ''period'' # cols,
            trows = map (\<lambda>p. (Time (fst p), Str (fst (snd p)) # Str (fst (snd (snd p)))
                        # map Num (fit (length cols) (row_cells (snd p))))) (zip ds rs)\<rparr>"
  using assms
  by (simp add: plain_assign_date set_index_def count_list_0_iff cells_where_append
      filter_not_mem cells_where_neq_all cells_where_eq_none)

lemma mset_map_sort_key: "mset (map f (sort_key k xs)) = mset (map f xs)"
  by (metis mset_map mset_sort)

lemma finish_dates:
  assumes "''date'' \<notin> set cols"
  shows "\<exists>t. finish cols (rs, Some ds) False = Inr t
     \<and> tcolumns t = filter (\<lambda>c. c \<notin> set [''period'', ''year'']) cols
     \<and> mset (trows t) = mset (map (\<lambda>p. (Time (fst p), kept_cells cols (snd p))) (zip ds rs))"
  using assms
  by (simp add: finish_def set_index_date kept_cells_def
      drop_columns_def sort_index_def mset_map_sort_key comp_def del: mset_map)

lemma rename_not_mem: "l \<notin> set cols \<Longrightarrow> map (\<lambda>c. if c = l then l' else c) cols = cols"
  by (induction cols) auto

lemma set_index_annual:
  assumes "''date'' \<notin> set cols" "''year'' \<notin> set cols"
  shows "set_index ''date'' \<lparr>pcolumns = map (\<lambda>c. if c = ''year'' then ''date'' else c)
                                          (pcolumns (plain_of cols rs)),
                             prows = prows (plain_of cols rs)\<rparr>
     = Inr \<lparr>tcolumns = ''period'' # cols,
            trows = map (\<lambda>r. (Str (fst r), Str (fst (snd r))
                        # map Num (fit (length cols) (row_cells r)))) rs\<rparr>"
  using assms
  by (simp add: plain_of_def set_index_def count_list_0_iff rename_not_mem
      filter_not_mem cells_where_neq_all cells_where_eq_none)

lemma finish_annual:
  assumes "''date'' \<notin> set cols" "''year'' \<notin> set cols"
  shows "\<exists>t. finish cols (rs, None) True = Inr t
     \<and> tcolumns t = filter (\<lambda>c. c \<notin> set [''period'', ''year'']) cols
     \<and> mset (trows t) = mset (map (\<lambda>r. (Str (fst r), kept_cells cols r)) rs)"
proof -
  have "rename_column ''year'' ''date'' (plain_of cols rs)
      = Inr \<lparr>pcolumns = map (\<lambda>c. if c = ''year'' then ''date'' else c)
                                          (pcolumns (plain_of cols rs)),
                             prows = prows (plain_of cols rs)\<rparr>"
    by (simp add: rename_column_def plain_of_def)
  then show ?thesis using assms
    by (simp add: finish_def set_index_annual kept_cells_def
      drop_columns_def sort_index_def mset_map_sort_key comp_def del: mset_map)
qed


lemma to_datetime_all_ok:
  "(\<forall>s\<in>set ss. parse s \<noteq> None) \<Longrightarrow> to_datetime_all parse ss = Inr (map (\<lambda>s. the (parse s)) ss)"
  by (induction ss) auto

lemma to_datetime_all_fails:
  "(\<exists>s\<in>set ss. parse s = None) \<Longrightarrow> to_datetime_all parse ss = Inl ValueError"
proof (induction ss)
  case Nil
  then show ?case by simp
next
  case (Cons s ss)
  show ?case
  proof (cases "parse s")
    case None
    then show ?thesis by simp
  next
    case (Some d)
    with Cons.prems have "\<exists>s\<in>set ss. parse s = None" by auto
    with Cons.IH Some show ?thesis by simp
  qed
qed

lemma kept_cells_replace [simp]: "kept_cells cols (replace_in_row ch r) = kept_cells cols r"
  by (simp add: kept_cells_def replace_in_row_def row_cells_def)

lemma first_period_char_replace_Q:
  "first_period_char (replace_period (CHR ''0'') ((y, CHR ''Q'' # p, cs) # rs)) = Inr (CHR ''Q'')"
  by (simp add: first_period_char_def replace_period_def replace_in_row_def)

lemma quarterly_ok:
  assumes "\<forall>r\<in>set rs. to_datetime None (quarter_string (replace_in_row (CHR ''0'') r)) \<noteq> None"
  shows "quarterly to_datetime (rs, d) =
     Inr (replace_period (CHR ''0'') rs,
          Some (map (\<lambda>r. the (to_datetime None (quarter_string (replace_in_row (CHR ''0'') r)))) rs))"
  using assms
  by (simp add: quarterly_def replace_period_def to_datetime_all_ok comp_def)

lemma zip_map_same: "zip (map f xs) (map g xs) = map (\<lambda>x. (f x, g x)) xs"
  by (induction xs) auto

lemma organize_df_quarterly_ok:
  assumes first: "rows df = (y, CHR ''Q'' # p, cs) # rs"
    and parse: "\<forall>r\<in>set (rows df).
                  to_datetime None (quarter_string (replace_in_row (CHR ''0'') r)) \<noteq> None"
    and nodate: "''date'' \<notin> set (columns df)"
  shows "\<exists>t. organize_df to_datetime df = Inr t
      \<and> tcolumns t = filter (\<lambda>c. c \<notin> set [''period'', ''year'']) (columns df)
      \<and> mset (trows t) =
          mset (map (\<lambda>r. (Time (the (to_datetime None
                                   (quarter_string (replace_in_row (CHR ''0'') r)))),
                           kept_cells (columns df) r)) (rows df))"
proof -
  let ?ds = "map (\<lambda>r. the (to_datetime None (quarter_string (replace_in_row (CHR ''0'') r)))) (rows df)"
  let ?rs = "replace_period (CHR ''0'') (rows df)"
  have q: "quarterly to_datetime (rows df, None) = Inr (?rs, Some ?ds)"
    using parse by (rule quarterly_ok)
  have c: "first_period_char ?rs = Inr (CHR ''Q'')"
    unfolding first by (rule first_period_char_replace_Q)
  have c0: "first_period_char (rows df) = Inr (CHR ''Q'')"
    by (simp add: first first_period_char_def)
  have o: "organize_df to_datetime df = finish (columns df) (?rs, Some ?ds) False"
    by (simp add: organize_df_def c0 q c)
  from finish_dates [OF nodate, of ?rs ?ds] obtain t where
    t: "finish (columns df) (?rs, Some ?ds) False = Inr t"
       "tcolumns t = filter (\<lambda>c. c \<notin> set [''period'', ''year'']) (columns df)"
       "mset (trows t) = mset (map (\<lambda>p. (Time (fst p), kept_cells (columns df) (snd p))) (zip ?ds ?rs))"
    by blast
  have e: "map (\<lambda>p. (Time (fst p), kept_cells (columns df) (snd p))) (zip ?ds ?rs)
      = map (\<lambda>r. (Time (the (to_datetime None (quarter_string (replace_in_row (CHR ''0'') r)))),
                           kept_cells (columns df) r)) (rows df)"
    by (simp add: replace_period_def zip_map_same comp_def)
  from t(3) have m: "mset (trows t) =
          mset (map (\<lambda>r. (Time (the (to_datetime None
                                   (quarter_string (replace_in_row (CHR ''0'') r)))),
                           kept_cells (columns df) r)) (rows df))"
    by (simp only: e)
  show ?thesis
    by (intro exI [of _ t] conjI) (simp_all only: o t(1) t(2) m)
qed


lemma monthly_ok:
  assumes "\<forall>r\<in>set rs. to_datetime (Some ''%m-%Y'') (month_string (replace_in_row (CHR ''M'') r)) \<noteq> None"
  shows "monthly to_datetime (rs, d) =
     Inr (replace_period (CHR ''M'') rs,
          Some (map (\<lambda>r. the (to_datetime (Some ''%m-%Y'')
                                 (month_string (replace_in_row (CHR ''M'') r)))) rs))"
  using assms
  by (simp add: monthly_def replace_period_def to_datetime_all_ok comp_def)

lemma digit_not_letter: "is_digit c \<Longrightarrow> c \<noteq> CHR ''M'' \<and> c \<noteq> CHR ''A'' \<and> c \<noteq> CHR ''Q''"
  by (auto simp: is_digit_def)

lemma organize_df_monthly_ok:
  assumes first: "rows df = (y, CHR ''M'' # c # p, cs) # rs"
    and digit: "is_digit c"
    and parse: "\<forall>r\<in>set (rows df).
                  to_datetime (Some ''%m-%Y'') (month_string (replace_in_row (CHR ''M'') r)) \<noteq> None"
    and nodate: "''date'' \<notin> set (columns df)"
  shows "\<exists>t. organize_df to_datetime df = Inr t
      \<and> tcolumns t = filter (\<lambda>c. c \<notin> set [''period'', ''year'']) (columns df)
      \<and> mset (trows t) =
          mset (map (\<lambda>r. (Time (the (to_datetime (Some ''%m-%Y'')
                                   (month_string (replace_in_row (CHR ''M'') r)))),
                           kept_cells (columns df) r)) (rows df))"
proof -
  let ?ds = "map (\<lambda>r. the (to_datetime (Some ''%m-%Y'') (month_string (replace_in_row (CHR ''M'') r)))) (rows df)"
  let ?rs = "replace_period (CHR ''M'') (rows df)"
  have q: "monthly to_datetime (rows df, None) = Inr (?rs, Some ?ds)"
    using parse by (rule monthly_ok)
  have c: "first_period_char ?rs = Inr c"
    using digit_not_letter [OF digit]
    by (simp add: first first_period_char_def replace_period_def replace_in_row_def)
  have c0: "first_period_char (rows df) = Inr (CHR ''M'')"
    by (simp add: first first_period_char_def)
  have o: "organize_df to_datetime df = finish (columns df) (?rs, Some ?ds) False"
    using digit_not_letter [OF digit] by (simp add: organize_df_def c0 q c)
  from finish_dates [OF nodate, of ?rs ?ds] obtain t where
    t: "finish (columns df) (?rs, Some ?ds) False = Inr t"
       "tcolumns t = filter (\<lambda>c. c \<notin> set [''period'', ''year'']) (columns df)"
       "mset (trows t) = mset (map (\<lambda>p. (Time (fst p), kept_cells (columns df) (snd p))) (zip ?ds ?rs))"
    by blast
  have e: "map (\<lambda>p. (Time (fst p), kept_cells (columns df) (snd p))) (zip ?ds ?rs)
      = map (\<lambda>r. (Time (the (to_datetime (Some ''%m-%Y'') (month_string (replace_in_row (CHR ''M'') r)))),
                           kept_cells (columns df) r)) (rows df)"
    by (simp add: replace_period_def zip_map_same comp_def)
  from t(3) have m: "mset (trows t) =
          mset (map (\<lambda>r. (Time (the (to_datetime (Some ''%m-%Y'')
                                   (month_string (replace_in_row (CHR ''M'') r)))),
                           kept_cells (columns df) r)) (rows df))"
    by (simp only: e)
  show ?thesis
    by (intro exI [of _ t] conjI) (simp_all only: o t(1) t(2) m)
qed


subsection \<open>The result of \<^verbatim>\<open>organize_df\<close>\<close>

lemma finish_Inr:
  assumes "finish cols w annual = Inr t"
  obtains t0 where "t = drop_columns [''period'', ''year''] (sort_index t0)"
  using assms by (auto simp: finish_def Let_def split: sum.splits if_splits option.splits)

lemma organize_df_Inr:
  assumes "organize_df to_datetime df = Inr t"
  obtains w annual where "finish (columns df) w annual = Inr t"
  using assms by (auto simp: organize_df_def split: sum.splits)

lemma sorted_index_drop_sort:
  "sorted_wrt index_le (map fst (trows (drop_columns names (sort_index t0))))"
proof -
  have "map fst (trows (drop_columns names (sort_index t0)))
          = map fst (sort_key (\<lambda>r. cell_key (fst r)) (trows t0))"
    by (simp add: drop_columns_def sort_index_def comp_def)
  moreover have "sorted (map (\<lambda>r. cell_key (fst r)) (sort_key (\<lambda>r. cell_key (fst r)) (trows t0)))"
    by (rule sorted_sort_key)
  ultimately show ?thesis
    by (simp add: sorted_wrt_map index_le_def sorted_map)
qed

lemma dropped_labels:
  "l \<in> set names \<Longrightarrow> l \<notin> set (tcolumns (drop_columns names t))"
  by (simp add: drop_columns_def)

lemma annual_succeeds:
  assumes "rows df = (y, CHR ''A'' # p, cs) # rs"
    and "''date'' \<notin> set (columns df)" and "''year'' \<notin> set (columns df)"
  shows "\<exists>t. organize_df to_datetime df = Inr t"
  using assms
  by (simp add: organize_df_def first_period_char_def finish_def plain_of_def rename_column_def
      set_index_def count_list_0_iff)


lemma index_le_Time [simp]: "index_le (Time a) (Time b) = (a \<le> b)"
  by (auto simp: index_le_def cell_key_def)

lemma index_le_Str [simp]: "index_le (Str a) (Str b) = (a \<le> b)"
  by (auto simp: index_le_def cell_key_def)

lemma organize_df_quarterly_unparsed:
  assumes "rows df = (y, CHR ''Q'' # p, cs) # rs"
    and "\<exists>r\<in>set (rows df).
           to_datetime None (quarter_string (replace_in_row (CHR ''0'') r)) = None"
  shows "organize_df to_datetime df = Inl ValueError"
proof -
  from assms(2) have "\<exists>s\<in>set (map quarter_string (replace_period (CHR ''0'') (rows df))).
      to_datetime None s = None"
    by (simp add: replace_period_def)
  then have "quarterly to_datetime (rows df, None) = Inl ValueError"
    by (simp add: quarterly_def to_datetime_all_fails)
  then show ?thesis
    by (simp add: organize_df_def assms(1) first_period_char_def)
qed

lemma organize_df_monthly_unparsed:
  assumes "rows df = (y, CHR ''M'' # p, cs) # rs"
    and "\<exists>r\<in>set (rows df).
           to_datetime (Some ''%m-%Y'') (month_string (replace_in_row (CHR ''M'') r)) = None"
  shows "organize_df to_datetime df = Inl ValueError"
proof -
  from assms(2) have "\<exists>s\<in>set (map month_string (replace_period (CHR ''M'') (rows df))).
      to_datetime (Some ''%m-%Y'') s = None"
    by (simp add: replace_period_def)
  then have "monthly to_datetime (rows df, None) = Inl ValueError"
    by (simp add: monthly_def to_datetime_all_fails)
  then show ?thesis
    by (simp add: organize_df_def assms(1) first_period_char_def)
qed

subsection \<open>Closed evaluations\<close>

lemma organize_q01:
  "organize_df bls_to_datetime
       \<lparr>columns = [], rows = [(''2020'', ''Q01'', [] :: nat option list)]\<rparr>
     = Inr \<lparr>tcolumns = [], trows = [(Time (2020, 1, 1), [])]\<rparr>"
  by code_simp

lemma organize_q04:
  "organize_df bls_to_datetime
       \<lparr>columns = [], rows = [(''2020'', ''Q04'', [] :: nat option list)]\<rparr>
     = Inr \<lparr>tcolumns = [], trows = [(Time (2020, 10, 1), [])]\<rparr>"
  by code_simp

lemma organize_m03:
  "organize_df bls_to_datetime
       \<lparr>columns = [], rows = [(''2021'', ''M03'', [] :: nat option list)]\<rparr>
     = Inr \<lparr>tcolumns = [], trows = [(Time (2021, 3, 1), [])]\<rparr>"
  by code_simp

lemma quarterly_frame_parses:
  "\<forall>r\<in>set (rows quarterly_frame).
     bls_to_datetime None (quarter_string (replace_in_row (CHR ''0'') r)) \<noteq> None"
  by code_simp

lemma quarterly_frame_rows:
  "map (\<lambda>r. (Time (the (bls_to_datetime None (quarter_string (replace_in_row (CHR ''0'') r)))),
             kept_cells (columns quarterly_frame) r)) (rows quarterly_frame)
     = [(Time (2020, 10, 1) :: nat cell, [Num (Some 2)]), (Time (2020, 1, 1), [Num (Some 1)])]"
  by code_simp

lemma monthly_frame_parses:
  "\<forall>r\<in>set (rows monthly_frame).
     bls_to_datetime (Some ''%m-%Y'') (month_string (replace_in_row (CHR ''M'') r)) \<noteq> None"
  by code_simp

lemma monthly_frame_rows:
  "map (\<lambda>r. (Time (the (bls_to_datetime (Some ''%m-%Y'')
                          (month_string (replace_in_row (CHR ''M'') r)))),
             kept_cells (columns monthly_frame) r)) (rows monthly_frame)
     = [(Time (2021, 3, 1) :: nat cell, [Num (Some 2)]), (Time (2020, 12, 1), [Num (Some 1)])]"
  by code_simp

lemma quarter_strings_parse:
  "bls_to_datetime None ''2020-Q4'' = Some (2020, 10, 1)
   \<and> bls_to_datetime None ''2020-Q1'' = Some (2020, 1, 1)"
  by code_simp

lemma month_strings_parse:
  "bls_to_datetime (Some ''%m-%Y'') ''03-2021'' = Some (2021, 3, 1)
   \<and> bls_to_datetime (Some ''%m-%Y'') ''12-2020'' = Some (2020, 12, 1)"
  by code_simp

lemma organize_annual_frame:
  "organize_df bls_to_datetime annual_frame
     = Inr \<lparr>tcolumns = [''S''],
            trows = [(Str ''2019'', [Num (Some 1)]), (Str ''2021'', [Num (Some 2)])]\<rparr>"
  by code_simp

section \<open>The claims on \<^verbatim>\<open>organize_df\<close>\<close>

text \<open>
  Claim C2, as stated, fails: the code does not strip the leading zero of the suffix, it
  removes every \<^verbatim>\<open>0\<close> of the period code. On the first-row code \<^verbatim>\<open>Q10\<close> the string
  parsed is \<^verbatim>\<open>2020-Q1\<close> and the date the first quarter of 2020, where the claim's words
  give the string \<^verbatim>\<open>2020-Q10\<close>.
\<close>

theorem organize_df_quarterly_all_zeros:
  "organize_df bls_to_datetime
       \<lparr>columns = [], rows = [(''2020'', ''Q10'', [] :: nat option list)]\<rparr>
     = Inr \<lparr>tcolumns = [], trows = [(Time (2020, 1, 1), [])]\<rparr>
   \<and> quarter_string (replace_in_row (CHR ''0'') (''2020'', ''Q10'', [] :: nat option list))
       = ''2020-Q1''
   \<and> spec_quarter_string (''2020'', ''Q10'', [] :: nat option list) = ''2020-Q10''"
  by code_simp

text \<open>
  Claim C2, amended. For every non-empty table whose first row's period code starts
  with \<^verbatim>\<open>Q\<close> and that has no value column labelled \<^verbatim>\<open>date\<close>, \<^verbatim>\<open>organize_df\<close> removes
  every \<^verbatim>\<open>0\<close> from each row's period code, concatenates year, \<^verbatim>\<open>-\<close> and that code, and
  gives the string to \<^verbatim>\<open>to_datetime\<close> without a format: when every row's string parses,
  the table returned has one row per input row, indexed by the date parsed from that
  row's string. In particular \<^verbatim>\<open>{year: 2020, period: "Q01"}\<close> gets the first day of the
  first quarter of 2020 and \<^verbatim>\<open>{year: 2020, period: "Q04"}\<close> that of the fourth, under a
  parser that reads \<^verbatim>\<open>2020-Q1\<close> and \<^verbatim>\<open>2020-Q4\<close> as pandas does.
\<close>

theorem organize_df_quarterly:
  "(rows df = (y, CHR ''Q'' # p, cs) # rs
      \<and> (\<forall>r\<in>set (rows df).
            to_datetime None (quarter_string (replace_in_row (CHR ''0'') r)) \<noteq> None)
      \<and> ''date'' \<notin> set (columns df)
    \<longrightarrow> (\<exists>t. organize_df to_datetime df = Inr t
          \<and> tcolumns t = filter (\<lambda>c. c \<notin> set [''period'', ''year'']) (columns df)
          \<and> mset (trows t) =
              mset (map (\<lambda>r. (Time (the (to_datetime None
                                       (quarter_string (replace_in_row (CHR ''0'') r)))),
                               kept_cells (columns df) r)) (rows df))))
   \<and> organize_df bls_to_datetime
         \<lparr>columns = [], rows = [(''2020'', ''Q01'', [] :: nat option list)]\<rparr>
       = Inr \<lparr>tcolumns = [], trows = [(Time (2020, 1, 1), [])]\<rparr>
   \<and> organize_df bls_to_datetime
         \<lparr>columns = [], rows = [(''2020'', ''Q04'', [] :: nat option list)]\<rparr>
       = Inr \<lparr>tcolumns = [], trows = [(Time (2020, 10, 1), [])]\<rparr>"
  using organize_df_quarterly_ok [of df y p cs rs to_datetime] organize_q01 organize_q04
  by blast

theorem organize_df_quarterly_witness:
  "rows quarterly_frame = (''2020'', CHR ''Q'' # ''04'', [Some 2]) # [(''2020'', ''Q01'', [Some 1])]
   \<and> bls_to_datetime None ''2020-Q4'' = Some (2020, 10, 1)
   \<and> bls_to_datetime None ''2020-Q1'' = Some (2020, 1, 1)
   \<and> ''date'' \<notin> set (columns quarterly_frame)
   \<and> (\<exists>t. organize_df bls_to_datetime quarterly_frame = Inr t
         \<and> tcolumns t = [''S'']
         \<and> mset (trows t) = mset [(Time (2020, 10, 1), [Num (Some 2)]),
                                   (Time (2020, 1, 1), [Num (Some (1::nat))])])"
proof -
  have a: "rows quarterly_frame
             = (''2020'', CHR ''Q'' # ''04'', [Some 2]) # [(''2020'', ''Q01'', [Some 1])]"
    by (simp add: quarterly_frame_def)
  have b: "''date'' \<notin> set (columns quarterly_frame)"
    by (simp add: quarterly_frame_def)
  have c: "filter (\<lambda>c. c \<notin> set [''period'', ''year'']) (columns quarterly_frame) = [''S'']"
    by (simp add: quarterly_frame_def)
  from organize_df_quarterly
    [of quarterly_frame "''2020''" "''04''" "[Some 2]" "[(''2020'', ''Q01'', [Some 1])]"
        bls_to_datetime]
    a b quarterly_frame_parses
  have "\<exists>t. organize_df bls_to_datetime quarterly_frame = Inr t
          \<and> tcolumns t = filter (\<lambda>c. c \<notin> set [''period'', ''year'']) (columns quarterly_frame)
          \<and> mset (trows t) =
              mset (map (\<lambda>r. (Time (the (bls_to_datetime None
                                       (quarter_string (replace_in_row (CHR ''0'') r)))),
                               kept_cells (columns quarterly_frame) r)) (rows quarterly_frame))"
    by blast
  then show ?thesis
    unfolding quarterly_frame_rows c using a b quarter_strings_parse by blast
qed

text \<open>
  Claim C3, as stated, fails: the code does not strip the marker, it removes every
  \<^verbatim>\<open>M\<close> of the period code. On the code \<^verbatim>\<open>M0M3\<close> the string parsed is \<^verbatim>\<open>03-2021\<close> and
  the date March 2021, where the claim's words give the string \<^verbatim>\<open>0M3-2021\<close>.
\<close>

theorem organize_df_monthly_all_markers:
  "organize_df bls_to_datetime
       \<lparr>columns = [], rows = [(''2021'', ''M0M3'', [] :: nat option list)]\<rparr>
     = Inr \<lparr>tcolumns = [], trows = [(Time (2021, 3, 1), [])]\<rparr>
   \<and> month_string (replace_in_row (CHR ''M'') (''2021'', ''M0M3'', [] :: nat option list))
       = ''03-2021''
   \<and> spec_month_string (''2021'', ''M0M3'', [] :: nat option list) = ''0M3-2021''"
  by code_simp

text \<open>
  Claim C3, amended. For every non-empty table whose first row's period code is \<^verbatim>\<open>M\<close>
  followed by a digit and that has no value column labelled \<^verbatim>\<open>date\<close>, \<^verbatim>\<open>organize_df\<close>
  removes every \<^verbatim>\<open>M\<close> from each row's period code, concatenates that code, \<^verbatim>\<open>-\<close> and the
  year, and gives the string to \<^verbatim>\<open>to_datetime\<close> with the format \<^verbatim>\<open>%m-%Y\<close>: when every
  row's string parses, the table returned has one row per input row, indexed by the
  date parsed from that row's string. In particular \<^verbatim>\<open>{year: 2021, period: "M03"}\<close>
  gets the first day of March 2021.
\<close>

theorem organize_df_monthly:
  "(rows df = (y, CHR ''M'' # c # p, cs) # rs \<and> is_digit c
      \<and> (\<forall>r\<in>set (rows df).
            to_datetime (Some ''%m-%Y'') (month_string (replace_in_row (CHR ''M'') r)) \<noteq> None)
      \<and> ''date'' \<notin> set (columns df)
    \<longrightarrow> (\<exists>t. organize_df to_datetime df = Inr t
          \<and> tcolumns t = filter (\<lambda>c. c \<notin> set [''period'', ''year'']) (columns df)
          \<and> mset (trows t) =
              mset (map (\<lambda>r. (Time (the (to_datetime (Some ''%m-%Y'')
                                       (month_string (replace_in_row (CHR ''M'') r)))),
                               kept_cells (columns df) r)) (rows df))))
   \<and> organize_df bls_to_datetime
         \<lparr>columns = [], rows = [(''2021'', ''M03'', [] :: nat option list)]\<rparr>
       = Inr \<lparr>tcolumns = [], trows = [(Time (2021, 3, 1), [])]\<rparr>"
  using organize_df_monthly_ok [of df y c p cs rs to_datetime] organize_m03
  by blast

theorem organize_df_monthly_witness:
  "rows monthly_frame
     = (''2021'', CHR ''M'' # CHR ''0'' # ''3'', [Some 2]) # [(''2020'', ''M12'', [Some 1])]
   \<and> is_digit (CHR ''0'')
   \<and> bls_to_datetime (Some ''%m-%Y'') ''03-2021'' = Some (2021, 3, 1)
   \<and> bls_to_datetime (Some ''%m-%Y'') ''12-2020'' = Some (2020, 12, 1)
   \<and> ''date'' \<notin> set (columns monthly_frame)
   \<and> (\<exists>t. organize_df bls_to_datetime monthly_frame = Inr t
         \<and> tcolumns t = [''S'']
         \<and> mset (trows t) = mset [(Time (2021, 3, 1), [Num (Some 2)]),
                                   (Time (2020, 12, 1), [Num (Some (1::nat))])])"
proof -
  have a: "rows monthly_frame
     = (''2021'', CHR ''M'' # CHR ''0'' # ''3'', [Some 2]) # [(''2020'', ''M12'', [Some 1])]"
    by (simp add: monthly_frame_def)
  have b: "''date'' \<notin> set (columns monthly_frame)"
    by (simp add: monthly_frame_def)
  have c: "filter (\<lambda>c. c \<notin> set [''period'', ''year'']) (columns monthly_frame) = [''S'']"
    by (simp add: monthly_frame_def)
  have d: "is_digit (CHR ''0'')"
    by (simp add: is_digit_def)
  from organize_df_monthly
    [of monthly_frame "''2021''" "CHR ''0''" "''3''" "[Some 2]" "[(''2020'', ''M12'', [Some 1])]"
        bls_to_datetime]
    a b d monthly_frame_parses
  have "\<exists>t. organize_df bls_to_datetime monthly_frame = Inr t
          \<and> tcolumns t = filter (\<lambda>c. c \<notin> set [''period'', ''year'']) (columns monthly_frame)
          \<and> mset (trows t) =
              mset (map (\<lambda>r. (Time (the (bls_to_datetime (Some ''%m-%Y'')
                                       (month_string (replace_in_row (CHR ''M'') r)))),
                               kept_cells (columns monthly_frame) r)) (rows monthly_frame))"
    by blast
  then show ?thesis
    unfolding monthly_frame_rows c using a b d month_strings_parse by blast
qed

text \<open>
  Claim C4. Whenever \<^verbatim>\<open>organize_df\<close> returns a table, its rows are in non-decreasing
  order of their index (the derived date) and no column labelled \<^verbatim>\<open>period\<close> or \<^verbatim>\<open>year\<close>
  is left. The drop tolerates a column that is absent: on an annual table the column
  \<^verbatim>\<open>year\<close> has become the index when the drop runs, and \<^verbatim>\<open>organize_df\<close> still returns a
  table.
\<close>

theorem organize_df_sorted_dropped:
  "(organize_df to_datetime df = Inr t
    \<longrightarrow> sorted_wrt index_le (map fst (trows t))
        \<and> ''period'' \<notin> set (tcolumns t) \<and> ''year'' \<notin> set (tcolumns t))
   \<and> (rows df = (y, CHR ''A'' # p, cs) # rs
        \<and> ''date'' \<notin> set (columns df) \<and> ''year'' \<notin> set (columns df)
      \<longrightarrow> (\<exists>t'. organize_df to_datetime df = Inr t'))"
proof (intro conjI impI)
  assume ok: "organize_df to_datetime df = Inr t"
  then obtain w annual where "finish (columns df) w annual = Inr t"
    by (rule organize_df_Inr)
  then obtain t0 where t: "t = drop_columns [''period'', ''year''] (sort_index t0)"
    by (rule finish_Inr)
  show "sorted_wrt index_le (map fst (trows t))"
    unfolding t by (rule sorted_index_drop_sort)
  show "''period'' \<notin> set (tcolumns t)"
    unfolding t by (rule dropped_labels) simp
  show "''year'' \<notin> set (tcolumns t)"
    unfolding t by (rule dropped_labels) simp
next
  assume "rows df = (y, CHR ''A'' # p, cs) # rs
        \<and> ''date'' \<notin> set (columns df) \<and> ''year'' \<notin> set (columns df)"
  then show "\<exists>t'. organize_df to_datetime df = Inr t'"
    using annual_succeeds [of df y p cs rs to_datetime] by blast
qed

theorem organize_df_sorted_dropped_witness:
  "organize_df bls_to_datetime annual_frame
     = Inr \<lparr>tcolumns = [''S''],
            trows = [(Str ''2019'', [Num (Some 1)]), (Str ''2021'', [Num (Some 2)])]\<rparr>
   \<and> sorted_wrt index_le [Str ''2019'', Str ''2021'' :: nat cell]
   \<and> ''period'' \<notin> set [''S''] \<and> ''year'' \<notin> set [''S'']
   \<and> rows annual_frame = (''2021'', CHR ''A'' # ''01'', [Some 2]) # [(''2019'', ''A01'', [Some 1])]
   \<and> ''date'' \<notin> set (columns annual_frame) \<and> ''year'' \<notin> set (columns annual_frame)
   \<and> (\<exists>t'. organize_df bls_to_datetime annual_frame = Inr t')"
proof -
  have a: "rows annual_frame
             = (''2021'', CHR ''A'' # ''01'', [Some 2]) # [(''2019'', ''A01'', [Some 1])]
           \<and> ''date'' \<notin> set (columns annual_frame) \<and> ''year'' \<notin> set (columns annual_frame)"
    by (simp add: annual_frame_def)
  from organize_df_sorted_dropped
    [of bls_to_datetime annual_frame
        "\<lparr>tcolumns = [''S''],
          trows = [(Str ''2019'', [Num (Some 1)]), (Str ''2021'', [Num (Some 2)])]\<rparr>"
        "''2021''" "''01''" "[Some 2]" "[(''2019'', ''A01'', [Some 1])]"]
    organize_annual_frame a
  show ?thesis by simp
qed

section \<open>The merged table\<close>

lemma filter_distinct_find:
  "distinct (map f xs) \<Longrightarrow>
   filter (\<lambda>x. f x = k) xs = (case find (\<lambda>x. f x = k) xs of None \<Rightarrow> [] | Some x \<Rightarrow> [x])"
proof (induction xs)
  case Nil
  then show ?case by simp
next
  case (Cons a xs)
  show ?case
  proof (cases "f a = k")
    case True
    have "\<forall>x\<in>set xs. f x \<noteq> k"
    proof
      fix x assume "x \<in> set xs"
      then have "f x \<in> f ` set xs" by simp
      moreover from Cons.prems have "f a \<notin> f ` set xs" by simp
      ultimately show "f x \<noteq> k" using True by metis
    qed
    then have "filter (\<lambda>x. f x = k) xs = []" by (simp add: filter_empty_conv)
    with True show ?thesis by simp
  next
    case False
    with Cons show ?thesis by simp
  qed
qed

lemma find_None_key: "find (\<lambda>x. f x = k) xs = None \<longleftrightarrow> k \<notin> f ` set xs"
  by (auto simp: find_None_iff)

lemma find_Some_key: "find (\<lambda>x. f x = k) xs = Some x \<Longrightarrow> x \<in> set xs \<and> f x = k"
  by (auto simp: find_Some_iff)

lemma join_group_single:
  assumes "distinct (map row_key left)" "distinct (map fst right)"
    and "k \<in> row_key ` set left \<union> fst ` set right"
  shows "join_group n left right k
     = [(fst k, snd k, left_cells n left k @ [map_option snd (find (\<lambda>r. fst r = k) right)])]"
proof -
  have l: "filter (\<lambda>r. row_key r = k) left
      = (case find (\<lambda>r. row_key r = k) left of None \<Rightarrow> [] | Some x \<Rightarrow> [x])"
    using assms(1) by (rule filter_distinct_find)
  have r: "filter (\<lambda>r. fst r = k) right
      = (case find (\<lambda>r. fst r = k) right of None \<Rightarrow> [] | Some x \<Rightarrow> [x])"
    using assms(2) by (rule filter_distinct_find)
  show ?thesis
  proof (cases "find (\<lambda>r. row_key r = k) left")
    case None
    then have "k \<notin> row_key ` set left" by (simp add: find_None_key)
    with assms(3) have "k \<in> fst ` set right" by blast
    then obtain x where "find (\<lambda>r. fst r = k) right = Some x"
      by (cases "find (\<lambda>r. fst r = k) right") (auto simp: find_None_key)
    with None show ?thesis
      by (simp add: join_group_def l r left_cells_def)
  next
    case (Some a)
    then show ?thesis
      by (cases "find (\<lambda>r. fst r = k) right") (simp_all add: join_group_def l r left_cells_def)
  qed
qed


lemma concat_singletons:
  "(\<forall>k\<in>set ks. g k = [h k]) \<Longrightarrow> concat (map g ks) = map h ks"
  by (induction ks) auto


lemma row_key_float_row [simp]: "row_key (float_row to_float r) = row_key r"
  by (simp add: float_row_def row_key_def)

lemma row_cells_float_row [simp]:
  "row_cells (float_row to_float r) = map (map_option to_float) (row_cells r)"
  by (simp add: float_row_def row_cells_def)

lemma keys_float_left [simp]:
  "map row_key (float_left to_float left right) = map row_key left"
  by (simp add: float_left_def comp_def)

lemma keys_float_right [simp]:
  "map fst (float_right to_float left right) = map fst right"
  by (simp add: float_right_def comp_def)

lemma find_mapped: "find P (map f xs) = map_option f (find (\<lambda>x. P (f x)) xs)"
  by (induction xs) auto

lemma left_cells_float_row:
  "left_cells n (map (float_row to_float) left) k
     = map (map_option to_float) (left_cells n left k)"
  by (cases "find (\<lambda>r. row_key r = k) left")
     (simp_all add: left_cells_def find_mapped comp_def)

lemma left_cells_float_left:
  "left_cells n (float_left to_float left right) k
     = (if set (map fst right) \<subseteq> set (map row_key left) then left_cells n left k
        else map (map_option to_float) (left_cells n left k))"
  by (simp add: float_left_def left_cells_float_row)

lemma find_float_right:
  "map_option snd (find (\<lambda>r. fst r = k) (float_right to_float left right))
     = (if set (map row_key left) \<subseteq> set (map fst right)
        then map_option snd (find (\<lambda>r. fst r = k) right)
        else map_option to_float (map_option snd (find (\<lambda>r. fst r = k) right)))"
  by (cases "find (\<lambda>r. fst r = k) right")
     (simp_all add: float_right_def find_mapped comp_def)

lemma merge_outer_distinct:
  assumes "distinct (map row_key (rows df))" "distinct (map fst right)"
    and "label \<notin> {''year'', ''period''}" "label \<notin> set (columns df)"
  shows "merge_outer to_float df (label, right)
     = Inr \<lparr>columns = columns df @ [label],
            rows = map (\<lambda>k. (fst k, snd k,
                        left_cells (length (columns df)) (float_left to_float (rows df) right) k
                        @ [map_option snd
                             (find (\<lambda>r. fst r = k) (float_right to_float (rows df) right))]))
                    (sort (remdups (map row_key (rows df) @ map fst right)))\<rparr>"
proof -
  let ?L = "float_left to_float (rows df) right"
  let ?R = "float_right to_float (rows df) right"
  have dl: "distinct (map row_key ?L)" and dr: "distinct (map fst ?R)"
    using assms(1,2) by simp_all
  have sl: "row_key ` set ?L = row_key ` set (rows df)"
    using keys_float_left [of to_float "rows df" right] by (metis set_map)
  have sr: "fst ` set ?R = fst ` set right"
    using keys_float_right [of to_float "rows df" right] by (metis set_map)
  have "\<forall>k\<in>set (sort (remdups (map row_key (rows df) @ map fst right))).
      join_group (length (columns df)) ?L ?R k
        = [(fst k, snd k, left_cells (length (columns df)) ?L k
                                 @ [map_option snd (find (\<lambda>r. fst r = k) ?R)])]"
  proof
    fix k assume "k \<in> set (sort (remdups (map row_key (rows df) @ map fst right)))"
    then have "k \<in> row_key ` set ?L \<union> fst ` set ?R"
      unfolding sl sr by auto
    with dl dr show "join_group (length (columns df)) ?L ?R k
        = [(fst k, snd k, left_cells (length (columns df)) ?L k
                                 @ [map_option snd (find (\<lambda>r. fst r = k) ?R)])]"
      by (rule join_group_single)
  qed
  then have "concat (map (join_group (length (columns df)) ?L ?R)
                 (sort (remdups (map row_key (rows df) @ map fst right))))
     = map (\<lambda>k. (fst k, snd k, left_cells (length (columns df)) ?L k
                                 @ [map_option snd (find (\<lambda>r. fst r = k) ?R)]))
                    (sort (remdups (map row_key (rows df) @ map fst right)))"
    by (rule concat_singletons)
  with assms(3,4) show ?thesis
    by (simp add: merge_outer_def)
qed

lemma numeric_rows_keys:
  "numeric_rows to_numeric obs = Inr rs \<Longrightarrow> map fst rs = map obs_key obs"
  by (induction obs arbitrary: rs) (auto split: option.splits sum.splits)

lemma numeric_rows_find:
  "numeric_rows to_numeric obs = Inr rs \<Longrightarrow>
   map_option snd (find (\<lambda>r. fst r = k) rs)
     = (case find (\<lambda>ob. obs_key ob = k) obs of None \<Rightarrow> None | Some ob \<Rightarrow> to_numeric (obs_value ob))"
  by (induction obs arbitrary: rs) (auto split: option.splits sum.splits)

lemma reported_None:
  "k \<notin> set (map obs_key (data bls)) \<Longrightarrow> reported to_numeric bls k = None"
  by (simp add: reported_def find_None_key [THEN iffD2])

lemma all_keys_snoc: "all_keys (seen @ [bls]) = all_keys seen \<union> set (map obs_key (data bls))"
  by (auto simp: all_keys_def)


lemma keys_subset_all:
  "bls \<in> set seen \<Longrightarrow> set (map obs_key (data bls)) \<subseteq> all_keys seen"
  by (auto simp: all_keys_def)

lemma reported_cell_None:
  "k \<notin> set (map obs_key (data bls)) \<Longrightarrow> reported_cell to_numeric to_float raw bls k = None"
  by (simp add: reported_cell_def reported_None)

lemma left_cells_merged:
  assumes "merged to_numeric to_float seen df"
  shows "left_cells (length (columns df)) (rows df) k
           = map (\<lambda>bls. reported_cell to_numeric to_float seen bls k) seen"
proof (cases "find (\<lambda>r. row_key r = k) (rows df)")
  case None
  then have "k \<notin> row_key ` set (rows df)" by (simp add: find_None_key)
  with assms have "k \<notin> all_keys seen" by (simp add: merged_def)
  then have "\<forall>bls\<in>set seen. reported_cell to_numeric to_float seen bls k = None"
    by (auto simp: all_keys_def intro!: reported_cell_None)
  then have "map (\<lambda>bls. reported_cell to_numeric to_float seen bls k) seen
               = replicate (length seen) None"
    by (simp add: map_replicate_const [symmetric])
  moreover from assms have "length (columns df) = length seen" by (simp add: merged_def)
  ultimately show ?thesis using None by (simp add: left_cells_def)
next
  case (Some l)
  then have "l \<in> set (rows df)" "row_key l = k" by (auto dest: find_Some_key)
  with assms have "row_cells l = map (\<lambda>bls. reported_cell to_numeric to_float seen bls k) seen"
    by (auto simp: merged_def)
  with Some show ?thesis by (simp add: left_cells_def)
qed

lemma reported_cell_left:
  assumes idem: "\<forall>x. to_float (to_float x) = to_float x"
    and b: "b \<in> set seen"
  shows "(if set (map obs_key (data bls)) \<subseteq> all_keys seen
          then reported_cell to_numeric to_float seen b k
          else map_option to_float (reported_cell to_numeric to_float seen b k))
       = reported_cell to_numeric to_float (seen @ [bls]) b k"
proof -
  have sub: "set (map obs_key (data b)) \<subseteq> all_keys seen"
    using b by (rule keys_subset_all)
  have idem': "map_option to_float (map_option to_float (reported to_numeric b k))
                 = map_option to_float (reported to_numeric b k)"
    using idem by (cases "reported to_numeric b k") simp_all
  show ?thesis
    using sub idem' unfolding reported_cell_def all_keys_snoc
    by (auto simp del: set_map)
qed

lemma reported_cell_right:
  "(if all_keys seen \<subseteq> set (map obs_key (data bls)) then reported to_numeric bls k
    else map_option to_float (reported to_numeric bls k))
     = reported_cell to_numeric to_float (seen @ [bls]) bls k"
  unfolding reported_cell_def all_keys_snoc by (auto simp del: set_map)


lemma merged_step:
  assumes idem: "\<forall>x. to_float (to_float x) = to_float x"
    and inv: "merged to_numeric to_float seen df"
    and fresh: "seriesID bls \<notin> set (map seriesID seen)"
    and label: "seriesID bls \<notin> {''year'', ''period''}"
    and keys: "distinct (map obs_key (data bls))"
    and sdf: "series_df to_numeric bls = Inr sdf"
    and merge: "merge_outer to_float df sdf = Inr df1"
  shows "merged to_numeric to_float (seen @ [bls]) df1"
proof -
  from sdf obtain rs where rs: "numeric_rows to_numeric (data bls) = Inr rs"
    and sdf_eq: "sdf = (seriesID bls, rs)"
    by (cases "numeric_rows to_numeric (data bls)") (auto simp: series_df_def split: if_splits)
  have krs: "map fst rs = map obs_key (data bls)"
    using rs by (rule numeric_rows_keys)
  let ?ks = "sort (remdups (map row_key (rows df) @ map fst rs))"
  let ?h = "\<lambda>k. (fst k, snd k,
                left_cells (length (columns df)) (float_left to_float (rows df) rs) k
                @ [map_option snd (find (\<lambda>r. fst r = k) (float_right to_float (rows df) rs))])"
  from inv have d: "distinct (map row_key (rows df))" and c: "columns df = map seriesID seen"
    and ks: "set (map row_key (rows df)) = all_keys seen"
    by (simp_all add: merged_def)
  have "merge_outer to_float df (seriesID bls, rs)
          = Inr \<lparr>columns = columns df @ [seriesID bls], rows = map ?h ?ks\<rparr>"
    using d keys label fresh by (intro merge_outer_distinct) (simp_all add: krs c)
  with merge sdf_eq have df1: "df1 = \<lparr>columns = columns df @ [seriesID bls], rows = map ?h ?ks\<rparr>"
    by simp
  have rk: "map row_key (map ?h ?ks) = ?ks"
    by (simp add: comp_def row_key_def)
  have setks: "set ?ks = all_keys (seen @ [bls])"
    using ks by (simp add: all_keys_snoc krs)
  have cells: "\<forall>r\<in>set (map ?h ?ks).
      row_cells r = map (\<lambda>b. reported_cell to_numeric to_float (seen @ [bls]) b (row_key r))
                      (seen @ [bls])"
  proof
    fix r assume "r \<in> set (map ?h ?ks)"
    then obtain k where r: "r = ?h k" by auto
    have l0: "left_cells (length (columns df)) (rows df) k
           = map (\<lambda>b. reported_cell to_numeric to_float seen b k) seen"
      using inv by (rule left_cells_merged)
    have l: "left_cells (length (columns df)) (float_left to_float (rows df) rs) k
           = map (\<lambda>b. reported_cell to_numeric to_float (seen @ [bls]) b k) seen"
    proof (cases "set (map obs_key (data bls)) \<subseteq> all_keys seen")
      case True
      then have "left_cells (length (columns df)) (float_left to_float (rows df) rs) k
           = map (\<lambda>b. reported_cell to_numeric to_float seen b k) seen"
        by (simp only: left_cells_float_left krs ks l0 if_True)
      also have "\<dots> = map (\<lambda>b. reported_cell to_numeric to_float (seen @ [bls]) b k) seen"
      proof (rule map_cong [OF refl])
        fix b assume "b \<in> set seen"
        with reported_cell_left [OF idem this, of bls to_numeric k] True
        show "reported_cell to_numeric to_float seen b k
                = reported_cell to_numeric to_float (seen @ [bls]) b k"
          by (simp del: set_map)
      qed
      finally show ?thesis .
    next
      case False
      then have "left_cells (length (columns df)) (float_left to_float (rows df) rs) k
           = map (map_option to_float) (map (\<lambda>b. reported_cell to_numeric to_float seen b k) seen)"
        by (simp only: left_cells_float_left krs ks l0 if_False)
      also have "\<dots> = map (\<lambda>b. reported_cell to_numeric to_float (seen @ [bls]) b k) seen"
        unfolding map_map
      proof (rule map_cong [OF refl])
        fix b assume "b \<in> set seen"
        with reported_cell_left [OF idem this, of bls to_numeric k] False
        show "(map_option to_float \<circ> (\<lambda>b. reported_cell to_numeric to_float seen b k)) b
                = reported_cell to_numeric to_float (seen @ [bls]) b k"
          by (simp del: set_map)
      qed
      finally show ?thesis .
    qed
    have v0: "map_option snd (find (\<lambda>r. fst r = k) rs) = reported to_numeric bls k"
      using numeric_rows_find [OF rs, of k] by (simp add: reported_def)
    have "map_option snd (find (\<lambda>r. fst r = k) (float_right to_float (rows df) rs))
        = (if all_keys seen \<subseteq> set (map obs_key (data bls)) then reported to_numeric bls k
           else map_option to_float (reported to_numeric bls k))"
      by (simp only: find_float_right krs ks v0)
    then have v: "map_option snd (find (\<lambda>r. fst r = k) (float_right to_float (rows df) rs))
        = reported_cell to_numeric to_float (seen @ [bls]) bls k"
      by (simp only: reported_cell_right)
    show "row_cells r = map (\<lambda>b. reported_cell to_numeric to_float (seen @ [bls]) b (row_key r))
                      (seen @ [bls])"
      by (simp add: r row_cells_def row_key_def l v)
  qed
  show ?thesis
    unfolding merged_def df1 using c rk setks cells
    by (simp del: set_map map_map add: distinct_remdups)
qed

lemma merged_skeleton: "merged to_numeric to_float [] skeleton"
  by (simp add: merged_def skeleton_def all_keys_def)

lemma merged_all:
  assumes "\<forall>x. to_float (to_float x) = to_float x"
    and "merge_all to_numeric to_float df rest = Inr df1"
    and "merged to_numeric to_float seen df"
    and "distinct (map seriesID (seen @ rest))"
    and "\<forall>bls\<in>set rest. seriesID bls \<notin> {''year'', ''period''}"
    and "\<forall>bls\<in>set rest. distinct (map obs_key (data bls))"
  shows "merged to_numeric to_float (seen @ rest) df1"
  using assms(2-)
proof (induction rest arbitrary: seen df)
  case Nil
  then show ?case by simp
next
  case (Cons bls rest)
  from Cons.prems(1) obtain sdf df2 where sdf: "series_df to_numeric bls = Inr sdf"
    and m: "merge_outer to_float df sdf = Inr df2"
    and rest: "merge_all to_numeric to_float df2 rest = Inr df1"
    by (auto split: sum.splits)
  have "merged to_numeric to_float (seen @ [bls]) df2"
    using assms(1) Cons.prems(2) _ _ _ sdf m
  proof (rule merged_step)
    show "seriesID bls \<notin> set (map seriesID seen)" using Cons.prems(3) by auto
    show "seriesID bls \<notin> {''year'', ''period''}" using Cons.prems(4) by simp
    show "distinct (map obs_key (data bls))" using Cons.prems(5) by simp
  qed
  then have "merged to_numeric to_float ((seen @ [bls]) @ rest) df1"
    using rest Cons.prems(3,4,5) by (intro Cons.IH) simp_all
  then show ?case by simp
qed

lemma fit_same: "length cs = n \<Longrightarrow> fit n cs = cs"
  by (simp add: fit_def)

lemma kept_cells_all:
  assumes "''period'' \<notin> set cols" "''year'' \<notin> set cols" "length (row_cells r) = length cols"
  shows "kept_cells cols r = map Num (row_cells r)"
  using assms by (auto simp: kept_cells_def fit_same intro!: cells_where_all)

lemma filter_keep_all:
  "''period'' \<notin> set cols \<Longrightarrow> ''year'' \<notin> set cols
     \<Longrightarrow> filter (\<lambda>c. c \<notin> set [''period'', ''year'']) cols = cols"
  by (induction cols) auto

lemma finish_no_date:
  "''date'' \<notin> set cols \<Longrightarrow> finish cols (rs, None) False = Inl KeyError"
  by (simp add: finish_def plain_of_def set_index_def count_list_0_iff)

lemma finish_two_dates:
  "''date'' \<notin> set cols \<Longrightarrow> finish cols (rs, Some ds) True = Inl ValueError"
  by (simp add: finish_def plain_assign_date rename_column_def set_index_def)


lemma to_datetime_all_values:
  "to_datetime_all parse ss = Inr ds \<Longrightarrow> ds = map (\<lambda>s. the (parse s)) ss"
  by (induction ss arbitrary: ds) (auto split: option.splits sum.splits)

lemma index_of_Q:
  "index_of to_datetime (CHR ''Q'') (row_key r)
     = Time (the (to_datetime None (quarter_string (replace_in_row (CHR ''0'') r))))"
  by (simp add: index_of_def quarter_string_def replace_in_row_def row_key_def)

lemma index_of_M:
  "index_of to_datetime (CHR ''M'') (row_key r)
     = Time (the (to_datetime (Some ''%m-%Y'') (month_string (replace_in_row (CHR ''M'') r))))"
  by (simp add: index_of_def month_string_def replace_in_row_def row_key_def)

lemma index_of_A: "index_of to_datetime (CHR ''A'') (row_key r) = Str (fst r)"
  by (simp add: index_of_def row_key_def)

lemma quarterly_Inr:
  assumes "quarterly to_datetime (rs, d) = Inr w"
  shows "w = (replace_period (CHR ''0'') rs,
              Some (map (\<lambda>r. the (to_datetime None (quarter_string (replace_in_row (CHR ''0'') r)))) rs))"
proof -
  from assms obtain ds where
    ds: "to_datetime_all (to_datetime None) (map quarter_string (replace_period (CHR ''0'') rs)) = Inr ds"
    and w: "w = (replace_period (CHR ''0'') rs, Some ds)"
    by (cases "to_datetime_all (to_datetime None)
                 (map quarter_string (replace_period (CHR ''0'') rs))")
       (auto simp: quarterly_def)
  from to_datetime_all_values [OF ds] w show ?thesis
    by (simp add: replace_period_def comp_def)
qed

lemma monthly_Inr:
  assumes "monthly to_datetime (rs, d) = Inr w"
  shows "w = (replace_period (CHR ''M'') rs,
              Some (map (\<lambda>r. the (to_datetime (Some ''%m-%Y'')
                                     (month_string (replace_in_row (CHR ''M'') r)))) rs))"
proof -
  from assms obtain ds where
    ds: "to_datetime_all (to_datetime (Some ''%m-%Y''))
           (map month_string (replace_period (CHR ''M'') rs)) = Inr ds"
    and w: "w = (replace_period (CHR ''M'') rs, Some ds)"
    by (cases "to_datetime_all (to_datetime (Some ''%m-%Y''))
                 (map month_string (replace_period (CHR ''M'') rs))")
       (auto simp: monthly_def)
  from to_datetime_all_values [OF ds] w show ?thesis
    by (simp add: replace_period_def comp_def)
qed

lemma finish_dates_rows:
  assumes f: "finish cols (replace_period ch rs, Some (map g rs)) False = Inr t"
    and nodate: "''date'' \<notin> set cols"
  shows "tcolumns t = filter (\<lambda>c. c \<notin> set [''period'', ''year'']) cols
     \<and> mset (trows t) = mset (map (\<lambda>r. (Time (g r), kept_cells cols r)) rs)"
proof -
  from finish_dates [OF nodate, of "replace_period ch rs" "map g rs"] f
  have t: "tcolumns t = filter (\<lambda>c. c \<notin> set [''period'', ''year'']) cols"
    and m: "mset (trows t) = mset (map (\<lambda>p. (Time (fst p), kept_cells cols (snd p)))
                                   (zip (map g rs) (replace_period ch rs)))"
    by auto
  have e: "map (\<lambda>p. (Time (fst p), kept_cells cols (snd p))) (zip (map g rs) (replace_period ch rs))
      = map (\<lambda>r. (Time (g r), kept_cells cols r)) rs"
    by (simp add: replace_period_def zip_map_same comp_def)
  from m have "mset (trows t) = mset (map (\<lambda>r. (Time (g r), kept_cells cols r)) rs)"
    by (simp only: e)
  with t show ?thesis by blast
qed

lemma organize_df_keyed:
  assumes o: "organize_df to_datetime df = Inr t"
    and nodate: "''date'' \<notin> set (columns df)" and noyear: "''year'' \<notin> set (columns df)"
  shows "\<exists>r0 rs c p. rows df = r0 # rs \<and> fst (snd r0) = c # p
      \<and> tcolumns t = filter (\<lambda>c. c \<notin> set [''period'', ''year'']) (columns df)
      \<and> mset (trows t)
          = mset (map (\<lambda>r. (index_of to_datetime c (row_key r), kept_cells (columns df) r))
                   (rows df))"
proof -
  from o obtain c1 where c1: "first_period_char (rows df) = Inr c1"
    by (auto simp: organize_df_def split: sum.splits)
  then obtain r0 rs p where rows: "rows df = r0 # rs" and per: "fst (snd r0) = c1 # p"
    by (auto simp: first_period_char_def split: list.splits)
  have goal: "tcolumns t = filter (\<lambda>c. c \<notin> set [''period'', ''year'']) (columns df)
      \<and> mset (trows t)
          = mset (map (\<lambda>r. (index_of to_datetime c1 (row_key r), kept_cells (columns df) r))
                   (rows df))"
  proof (cases "c1 = CHR ''Q''")
    case True
    from o c1 True obtain w1 where q: "quarterly to_datetime (rows df, None) = Inr w1"
      by (auto simp: organize_df_def split: sum.splits)
    note w1 = quarterly_Inr [OF q]
    have c: "first_period_char (fst w1) = Inr (CHR ''Q'')"
      using per True
      by (simp add: w1 rows first_period_char_def replace_period_def replace_in_row_def)
    from o have "finish (columns df) w1 False = Inr t"
      by (simp add: organize_df_def c1 True q c)
    then show ?thesis
      unfolding w1 True index_of_Q by (rule finish_dates_rows) (rule nodate)
  next
    case notQ: False
    show ?thesis
    proof (cases "c1 = CHR ''M''")
      case True
      from o c1 notQ True obtain w2 where q: "monthly to_datetime (rows df, None) = Inr w2"
        by (auto simp: organize_df_def split: sum.splits)
      note w2 = monthly_Inr [OF q]
      from o obtain c3 where f: "finish (columns df) w2 (c3 = CHR ''A'') = Inr t"
        by (auto simp: organize_df_def c1 notQ True q split: sum.splits)
      have "c3 \<noteq> CHR ''A''"
      proof
        assume "c3 = CHR ''A''"
        with f have "finish (columns df) w2 True = Inr t" by simp
        moreover have "finish (columns df) w2 True = Inl ValueError"
          unfolding w2 using nodate by (rule finish_two_dates)
        ultimately show False by simp
      qed
      with f have "finish (columns df) w2 False = Inr t" by simp
      then show ?thesis
        unfolding w2 True index_of_M by (rule finish_dates_rows) (rule nodate)
    next
      case notM: False
      from o have f: "finish (columns df) (rows df, None) (c1 = CHR ''A'') = Inr t"
        by (simp add: organize_df_def c1 notQ notM)
      have A: "c1 = CHR ''A''"
      proof (rule ccontr)
        assume "c1 \<noteq> CHR ''A''"
        with f have "finish (columns df) (rows df, None) False = Inr t" by simp
        moreover have "finish (columns df) (rows df, None) False = Inl KeyError"
          using nodate by (rule finish_no_date)
        ultimately show False by simp
      qed
      from finish_annual [OF nodate noyear, of "rows df"] f A
      show ?thesis by (auto simp: index_of_A)
    qed
  qed
  with rows per show ?thesis by blast
qed

lemma hd_sorted_Min:
  "sorted xs \<Longrightarrow> xs \<noteq> [] \<Longrightarrow> hd xs = Min (set xs)"
  by (cases xs) (auto intro!: Min_eqI [symmetric])


lemma construct_AB:
  "construct_df digits_value id bls_to_datetime [series_A, series_B]
     = Inr \<lparr>tcolumns = [''A'', ''B''],
            trows = [(Time (2019, 10, 1), [Num None, Num (Some 8)]),
                     (Time (2020, 1, 1), [Num (Some 5), Num None]),
                     (Time (2020, 4, 1), [Num (Some 6), Num (Some 7)])]\<rparr>"
  by code_simp

text \<open>
  The conversion to float64 reaches exactly the columns that gain an empty cell. With
  a function that adds 100 in the place of the conversion, to make it visible: series
  \<^verbatim>\<open>A\<close> reports the two quarters of 2020 and \<^verbatim>\<open>B\<close> reports one of them and a quarter
  of 2019, so both columns have an empty cell and both are converted; merging
  \<^verbatim>\<open>A\<close> with itself leaves no empty cell and converts nothing.
\<close>

lemma merge_converts_columns_with_gaps:
  "merge_all digits_value (\<lambda>n. n + 100) skeleton [series_A, series_B]
     = Inr \<lparr>columns = [''A'', ''B''],
            rows = [(''2019'', ''Q04'', [None, Some 108]),
                    (''2020'', ''Q01'', [Some 105, None]),
                    (''2020'', ''Q02'', [Some 106, Some 107])]\<rparr>
   \<and> merge_all digits_value (\<lambda>n. n + 100) skeleton [series_A, series_A]
     = Inr \<lparr>columns = [''A_x'', ''A_y''],
            rows = [(''2020'', ''Q01'', [Some 5, Some 5]),
                    (''2020'', ''Q02'', [Some 6, Some 6])]\<rparr>"
  by code_simp

text \<open>
  Claim C1, as stated, fails. A series that reports the pair (2020, Q01) twice gives
  a table with two rows for that one pair; two series with the same identifier give
  the columns \<^verbatim>\<open>A_x\<close> and \<^verbatim>\<open>A_y\<close>, none for the identifier; and the value column of a
  series called \<^verbatim>\<open>date\<close> is overwritten by the derived date and becomes the index.
\<close>

theorem construct_df_repeated_key:
  "construct_df digits_value id bls_to_datetime [series_twice]
     = Inr \<lparr>tcolumns = [''A''],
            trows = [(Time (2020, 1, 1), [Num (Some 1)]), (Time (2020, 1, 1), [Num (Some 2)])]\<rparr>
   \<and> remdups (map obs_key (data series_twice)) = [(''2020'', ''Q01'')]
   \<and> construct_df digits_value id bls_to_datetime [series_A, series_A]
     = Inr \<lparr>tcolumns = [''A_x'', ''A_y''],
            trows = [(Time (2020, 1, 1), [Num (Some 5), Num (Some 5)]),
                     (Time (2020, 4, 1), [Num (Some 6), Num (Some 6)])]\<rparr>
   \<and> construct_df digits_value id bls_to_datetime [series_date]
     = Inr \<lparr>tcolumns = [], trows = [(Time (2020, 1, 1), [])]\<rparr>"
  by code_simp

text \<open>
  Claim C1, amended. For every collection of series whose identifiers are pairwise
  distinct and none of \<^verbatim>\<open>year\<close>, \<^verbatim>\<open>period\<close>, \<^verbatim>\<open>date\<close>, and in which no series reports
  the same (year, period) pair twice, the table that \<^verbatim>\<open>_construct_df\<close> returns has one
  value column per series identifier, in the order of the series, and exactly one row
  per distinct pair observed across all series. The row of a pair \<open>k\<close> is indexed by
  the date derived from \<open>k\<close> (the granularity is read from the period code of the
  least pair, which is row 0 of the merged frame) and holds, for each series, the
  number the series reports at \<open>k\<close>, converted to float64 when the column of the
  series has an empty cell, and an empty cell when the series does not report \<open>k\<close>. The
  conversion to float64 is taken to leave a float unchanged.
\<close>

theorem construct_df_union_of_keys:
  assumes ids: "distinct (map seriesID raw)"
    and labels: "\<forall>bls\<in>set raw. seriesID bls \<notin> {''year'', ''period'', ''date''}"
    and keys: "\<forall>bls\<in>set raw. distinct (map obs_key (data bls))"
    and float: "\<forall>x. to_float (to_float x) = to_float x"
    and built: "construct_df to_numeric to_float to_datetime raw = Inr t"
  shows "tcolumns t = map seriesID raw
     \<and> length (trows t) = card (all_keys raw)
     \<and> snd (Min (all_keys raw)) \<noteq> []
     \<and> mset (trows t)
         = image_mset
             (\<lambda>k. (index_of to_datetime (hd (snd (Min (all_keys raw)))) k,
                   map (\<lambda>bls. Num (reported_cell to_numeric to_float raw bls k)) raw))
             (mset_set (all_keys raw))
     \<and> (\<forall>bls k. k \<notin> set (map obs_key (data bls))
            \<longrightarrow> reported_cell to_numeric to_float raw bls k = None)"
proof -
  from built obtain df where m: "merge_all to_numeric to_float skeleton raw = Inr df"
    and o: "organize_df to_datetime df = Inr t"
    by (auto simp: construct_df_def split: sum.splits)
  have "merged to_numeric to_float ([] @ raw) df"
    using float m merged_skeleton
  proof (rule merged_all)
    show "distinct (map seriesID ([] @ raw))" using ids by simp
    show "\<forall>bls\<in>set raw. seriesID bls \<notin> {''year'', ''period''}" using labels by auto
    show "\<forall>bls\<in>set raw. distinct (map obs_key (data bls))" by (rule keys)
  qed
  then have inv: "merged to_numeric to_float raw df" by simp
  then have cols: "columns df = map seriesID raw"
    and dist: "distinct (map row_key (rows df))"
    and srt: "sorted (map row_key (rows df))"
    and kset: "set (map row_key (rows df)) = all_keys raw"
    and cells: "\<forall>r\<in>set (rows df).
        row_cells r = map (\<lambda>bls. reported_cell to_numeric to_float raw bls (row_key r)) raw"
    by (simp_all add: merged_def)
  from labels have res: "''date'' \<notin> set (columns df)" "''year'' \<notin> set (columns df)"
      "''period'' \<notin> set (columns df)"
    unfolding cols by auto
  from organize_df_keyed [OF o res(1) res(2)] obtain r0 rs c p where
    rows: "rows df = r0 # rs" and per: "fst (snd r0) = c # p"
    and tc: "tcolumns t = filter (\<lambda>c. c \<notin> set [''period'', ''year'']) (columns df)"
    and tr: "mset (trows t)
          = mset (map (\<lambda>r. (index_of to_datetime c (row_key r), kept_cells (columns df) r))
                   (rows df))"
    by blast
  have "hd (map row_key (rows df)) = Min (set (map row_key (rows df)))"
    using srt by (rule hd_sorted_Min) (simp add: rows)
  then have mn: "Min (all_keys raw) = row_key r0"
    by (simp add: kset [symmetric] rows del: set_map)
  have c1: "tcolumns t = map seriesID raw"
    using tc filter_keep_all [OF res(3) res(2)] cols by simp
  have c3: "snd (Min (all_keys raw)) \<noteq> []" and hc: "hd (snd (Min (all_keys raw))) = c"
    using per by (simp_all add: mn row_key_def)
  have e: "map (\<lambda>r. (index_of to_datetime c (row_key r), kept_cells (columns df) r)) (rows df)
      = map (\<lambda>k. (index_of to_datetime c k,
                   map (\<lambda>bls. Num (reported_cell to_numeric to_float raw bls k)) raw))
          (map row_key (rows df))"
  proof -
    have "\<forall>r\<in>set (rows df). kept_cells (columns df) r
             = map (\<lambda>bls. Num (reported_cell to_numeric to_float raw bls (row_key r))) raw"
    proof
      fix r assume r: "r \<in> set (rows df)"
      with cells have rc:
        "row_cells r = map (\<lambda>bls. reported_cell to_numeric to_float raw bls (row_key r)) raw"
        by blast
      then have "length (row_cells r) = length (columns df)" by (simp add: cols)
      with res have "kept_cells (columns df) r = map Num (row_cells r)"
        by (intro kept_cells_all)
      with rc show "kept_cells (columns df) r
             = map (\<lambda>bls. Num (reported_cell to_numeric to_float raw bls (row_key r))) raw"
        by (simp add: comp_def)
    qed
    then show ?thesis by (simp add: comp_def)
  qed
  from tr have "mset (trows t)
      = mset (map (\<lambda>k. (index_of to_datetime c k,
                   map (\<lambda>bls. Num (reported_cell to_numeric to_float raw bls k)) raw))
          (map row_key (rows df)))"
    unfolding e .
  then have "mset (trows t)
      = image_mset (\<lambda>k. (index_of to_datetime c k,
                   map (\<lambda>bls. Num (reported_cell to_numeric to_float raw bls k)) raw))
          (mset (map row_key (rows df)))"
    by (simp only: mset_map)
  moreover have ms: "mset (map row_key (rows df)) = mset_set (all_keys raw)"
    using dist kset mset_set_set by metis
  ultimately have c4: "mset (trows t)
         = image_mset
             (\<lambda>k. (index_of to_datetime (hd (snd (Min (all_keys raw)))) k,
                   map (\<lambda>bls. Num (reported_cell to_numeric to_float raw bls k)) raw))
             (mset_set (all_keys raw))"
    by (simp only: hc)
  have "length (trows t) = size (mset (trows t))" by simp
  also have "\<dots> = size (mset (map row_key (rows df)))"
    unfolding c4 ms by simp
  also have "\<dots> = card (all_keys raw)"
    using dist kset distinct_card [of "map row_key (rows df)"] by simp
  finally have c2: "length (trows t) = card (all_keys raw)" .
  have c5: "\<forall>bls k. k \<notin> set (map obs_key (data bls))
            \<longrightarrow> reported_cell to_numeric to_float raw bls k = None"
    by (simp add: reported_cell_None del: set_map)
  from c1 c2 c3 c4 c5 show ?thesis by blast
qed


theorem construct_df_union_of_keys_witness:
  "distinct (map seriesID [series_A, series_B])
   \<and> (\<forall>x::nat. id (id x) = id x)
   \<and> construct_df digits_value id bls_to_datetime [series_A, series_B]
       = Inr \<lparr>tcolumns = [''A'', ''B''],
              trows = [(Time (2019, 10, 1), [Num None, Num (Some 8)]),
                       (Time (2020, 1, 1), [Num (Some 5), Num None]),
                       (Time (2020, 4, 1), [Num (Some 6), Num (Some 7)])]\<rparr>
   \<and> [''A'', ''B''] = map seriesID [series_A, series_B]
   \<and> card (all_keys [series_A, series_B]) = 3
   \<and> snd (Min (all_keys [series_A, series_B])) \<noteq> []
   \<and> mset [(Time (2019, 10, 1) :: nat cell, [Num None, Num (Some 8)]),
            (Time (2020, 1, 1), [Num (Some 5), Num None]),
            (Time (2020, 4, 1), [Num (Some 6), Num (Some 7)])]
       = image_mset
           (\<lambda>k. (index_of bls_to_datetime (hd (snd (Min (all_keys [series_A, series_B])))) k,
                 map (\<lambda>bls. Num (reported_cell digits_value id [series_A, series_B] bls k))
                   [series_A, series_B]))
           (mset_set (all_keys [series_A, series_B]))"
proof -
  have a: "distinct (map seriesID [series_A, series_B])"
    by (simp add: series_A_def series_B_def)
  have b: "\<forall>bls\<in>set [series_A, series_B]. seriesID bls \<notin> {''year'', ''period'', ''date''}"
    by (simp add: series_A_def series_B_def)
  have c: "\<forall>bls\<in>set [series_A, series_B]. distinct (map obs_key (data bls))"
    by (simp add: series_A_def series_B_def obs_key_def)
  have d: "\<forall>x::nat. id (id x) = id x"
    by simp
  note r = construct_df_union_of_keys [OF a b c d construct_AB, unfolded table.select_convs]
  note r1 = r [THEN conjunct1]
  note r2 = r [THEN conjunct2, THEN conjunct1]
  note r3 = r [THEN conjunct2, THEN conjunct2, THEN conjunct1]
  note r4 = r [THEN conjunct2, THEN conjunct2, THEN conjunct2, THEN conjunct1]
  from r2 have r2': "card (all_keys [series_A, series_B]) = 3" by simp
  show ?thesis
    by (intro conjI) (rule a d construct_AB r1 r2' r3 r4)+
qed

end
